theory Spec2Isabelle
  imports Main "HOL-Library.Sublist"
begin

section \<open>IAM policy wrappers of cloud-objects (aws/iam/policy.go)\<close>

text \<open>
  The Go package wraps a handful of AWS IAM calls. Everything it does is to build a
  request, call one method of the \<open>iamiface.IAMAPI\<close> interface and look at the error
  that comes back. The embedding therefore makes three things explicit:
  \<^item> pointers: a Go pointer that may be \<open>nil\<close> is an \<open>option\<close>, and reading through a
    \<open>nil\<close> pointer is a panic of the model;
  \<^item> errors: a Go \<open>error\<close> is a value of \<open>go_error\<close>, the \<open>nil\<close> error is \<open>None\<close>;
  \<^item> the service: an implementation of the interface is a table of response functions
    over a state of its own, and every call made through the interface is appended
    to a log, so that "which SDK calls were made, in which order" is a value.
\<close>

subsection \<open>Errors, panics and results\<close>

text \<open>
  \<open>AwsError code message\<close> stands for an error value whose dynamic type implements
  \<open>awserr.Error\<close> (it has a \<open>Code()\<close>); \<open>PlainError message\<close> for an error value of any
  other type, such as the ones made by \<open>errors.New\<close>.

  \<open>InstanceNotYetCreatedError message\<close> is the error type of the package's own
  \<open>aws\<close> helper package.
\<close>

datatype go_error =
    AwsError string string
  | PlainError string
  | InstanceNotYetCreatedError string

datatype panic =
    NilDereference
  | InterfaceConversion
  | PanicValue string

datatype 'a outcome = Return 'a | Panic panic

text \<open>
  Modelled from the spec: \<open>aws.NewInstanceNotYetCreatedError\<close> is declared in the package
  \<open>cloud-objects/aws\<close>, whose source is missing here. The spec names its use the
  "not-yet-created guard"; the constructor is taken to wrap the message it is given in
  an error of the type \<open>InstanceNotYetCreatedError\<close>, which is not an \<open>awserr.Error\<close>.
\<close>

definition NewInstanceNotYetCreatedError :: "string \<Rightarrow> go_error" where
  "NewInstanceNotYetCreatedError msg = InstanceNotYetCreatedError msg"

text \<open>
  The type assertion \<open>err.(awserr.Error).Code()\<close>: \<open>Some\<close> of the code when the value
  implements the interface, \<open>None\<close> when the assertion fails (Go panics there, since
  the one-result form of the assertion is used).
\<close>

fun awserr_Code :: "go_error \<Rightarrow> string option" where
  "awserr_Code (AwsError code msg) = Some code"
| "awserr_Code (PlainError msg) = None"
| "awserr_Code (InstanceNotYetCreatedError msg) = None"

definition ErrCodeNoSuchEntityException :: string where
  "ErrCodeNoSuchEntityException = ''NoSuchEntity''"

subsection \<open>SDK helpers: pointer values and ARNs\<close>

definition StringValue :: "string option \<Rightarrow> string" where
  "StringValue v = (case v of None \<Rightarrow> [] | Some s \<Rightarrow> s)"

definition BoolValue :: "bool option \<Rightarrow> bool" where
  "BoolValue v = (case v of None \<Rightarrow> False | Some b \<Rightarrow> b)"

text \<open>
  \<open>awsarn.ARN\<close> of the AWS SDK for Go: five string fields, printed after the prefix
  \<open>arn:\<close> with \<open>:\<close> between them, and parsed back by splitting at the first five colons.
\<close>

record ARN =
  Partition :: string
  Service :: string
  Region :: string
  AccountID :: string
  Resource :: string

definition ARN_zero :: ARN where
  "ARN_zero = \<lparr>Partition = [], Service = [], Region = [], AccountID = [], Resource = []\<rparr>"

definition arnDelimiter :: string where
  "arnDelimiter = '':''"

definition arnPrefix :: string where
  "arnPrefix = ''arn:''"

definition ARN_String :: "ARN \<Rightarrow> string" where
  "ARN_String a =
     arnPrefix @ Partition a @ arnDelimiter @ Service a @ arnDelimiter @ Region a
       @ arnDelimiter @ AccountID a @ arnDelimiter @ Resource a"

text \<open>\<open>strings.SplitN s ":" n\<close>: at most \<open>n\<close> pieces, the last one the unsplit rest.\<close>

fun cut_colon :: "string \<Rightarrow> (string \<times> string) option" where
  "cut_colon [] = None"
| "cut_colon (c # cs) =
     (if c = CHR '':'' then Some ([], cs)
      else (case cut_colon cs of None \<Rightarrow> None | Some (a, b) \<Rightarrow> Some (c # a, b)))"

fun SplitN :: "string \<Rightarrow> nat \<Rightarrow> string list" where
  "SplitN s 0 = []"
| "SplitN s (Suc 0) = [s]"
| "SplitN s (Suc (Suc n)) =
     (case cut_colon s of None \<Rightarrow> [s] | Some (a, b) \<Rightarrow> a # SplitN b (Suc n))"

definition HasPrefix :: "string \<Rightarrow> string \<Rightarrow> bool" where
  "HasPrefix s p = (take (length p) s = p)"

definition Parse :: "string \<Rightarrow> go_error + ARN" where
  "Parse s =
     (if \<not> HasPrefix s arnPrefix then Inl (PlainError ''arn: invalid prefix'')
      else (case SplitN s 6 of
              [s0, s1, s2, s3, s4, s5] \<Rightarrow>
                Inr \<lparr>Partition = s1, Service = s2, Region = s3, AccountID = s4, Resource = s5\<rparr>
            | _ \<Rightarrow> Inl (PlainError ''arn: not enough sections'')))"

subsection \<open>Request and response shapes\<close>

text \<open>
  Of the SDK's structs only the fields that policy.go writes or reads are kept. The
  arguments of each input constructor are, in this order:
  \<^item> \<open>CreatePolicyInput\<close>: PolicyDocument, Description, PolicyName;
  \<^item> \<open>CreatePolicyVersionInput\<close>: PolicyDocument, PolicyArn, SetAsDefault;
  \<^item> \<open>ListPolicyVersionsInput\<close>: PolicyArn;
  \<^item> \<open>DeletePolicyVersionInput\<close>: PolicyArn, VersionId;
  \<^item> \<open>DeletePolicyInput\<close>: PolicyArn;
  \<^item> \<open>GetPolicyInput\<close>: PolicyArn;
  \<^item> \<open>GetPolicyVersionInput\<close>: PolicyArn, VersionId.
  Every field is a pointer in Go, hence an \<open>option\<close>.
\<close>

datatype CreatePolicyInput = CreatePolicyInput "string option" "string option" "string option"
datatype CreatePolicyVersionInput =
  CreatePolicyVersionInput "string option" "string option" "bool option"
datatype ListPolicyVersionsInput = ListPolicyVersionsInput "string option"
datatype DeletePolicyVersionInput = DeletePolicyVersionInput "string option" "string option"
datatype DeletePolicyInput = DeletePolicyInput "string option"
datatype GetPolicyInput = GetPolicyInput "string option"
datatype GetPolicyVersionInput = GetPolicyVersionInput "string option" "string option"

record Policy =
  Arn :: "string option"
  DefaultVersionId :: "string option"

record PolicyVersion =
  IsDefaultVersion :: "bool option"
  VersionId :: "string option"

text \<open>
  The outputs: \<open>CreatePolicyOutput\<close> and \<open>GetPolicyOutput\<close> hold a pointer to a
  \<open>Policy\<close>, \<open>ListPolicyVersionsOutput\<close> a slice of pointers to versions, the two
  version outputs a pointer to a version; the two delete outputs are empty structs.
\<close>

datatype CreatePolicyOutput = CreatePolicyOutput "Policy option"
datatype CreatePolicyVersionOutput = CreatePolicyVersionOutput "PolicyVersion option"
datatype ListPolicyVersionsOutput = ListPolicyVersionsOutput "PolicyVersion option list"
datatype DeletePolicyVersionOutput = DeletePolicyVersionOutput
datatype DeletePolicyOutput = DeletePolicyOutput
datatype GetPolicyOutput = GetPolicyOutput "Policy option"
datatype GetPolicyVersionOutput = GetPolicyVersionOutput "PolicyVersion option"

subsection \<open>The service behind \<open>iamiface.IAMAPI\<close>\<close>

text \<open>
  A call returns the Go pair (output pointer, error) and the service's next state.
\<close>

type_synonym ('i, 'o, 's) sdk_method = "'i \<Rightarrow> 's \<Rightarrow> ('o option \<times> go_error option) \<times> 's"

record 's IAMAPI =
  CreatePolicy :: "(CreatePolicyInput, CreatePolicyOutput, 's) sdk_method"
  CreatePolicyVersion :: "(CreatePolicyVersionInput, CreatePolicyVersionOutput, 's) sdk_method"
  ListPolicyVersions :: "(ListPolicyVersionsInput, ListPolicyVersionsOutput, 's) sdk_method"
  DeletePolicyVersion :: "(DeletePolicyVersionInput, DeletePolicyVersionOutput, 's) sdk_method"
  DeletePolicy :: "(DeletePolicyInput, DeletePolicyOutput, 's) sdk_method"
  GetPolicy :: "(GetPolicyInput, GetPolicyOutput, 's) sdk_method"
  GetPolicyVersion :: "(GetPolicyVersionInput, GetPolicyVersionOutput, 's) sdk_method"

datatype sdk_call =
    Call_CreatePolicy CreatePolicyInput
  | Call_CreatePolicyVersion CreatePolicyVersionInput
  | Call_ListPolicyVersions ListPolicyVersionsInput
  | Call_DeletePolicyVersion DeletePolicyVersionInput
  | Call_DeletePolicy DeletePolicyInput
  | Call_GetPolicy GetPolicyInput
  | Call_GetPolicyVersion GetPolicyVersionInput

record 's world =
  calls :: "sdk_call list"
  remote :: 's

text \<open>
  One call through the interface: log it, run the service, keep its new state. A call
  is taken to come back with its Go pair; a service that panics or hangs is outside
  the model.
\<close>

definition invoke ::
  "('i \<Rightarrow> sdk_call) \<Rightarrow> ('i, 'o, 's) sdk_method \<Rightarrow> 'i \<Rightarrow> 's world
     \<Rightarrow> ('o option \<times> go_error option) \<times> 's world" where
  "invoke tag m inp w =
     (case m inp (remote w) of
        (r, s') \<Rightarrow> (r, \<lparr>calls = calls w @ [tag inp], remote = s'\<rparr>))"

definition svc_CreatePolicy where
  "svc_CreatePolicy svc = invoke Call_CreatePolicy (CreatePolicy svc)"

definition svc_CreatePolicyVersion where
  "svc_CreatePolicyVersion svc = invoke Call_CreatePolicyVersion (CreatePolicyVersion svc)"

definition svc_ListPolicyVersions where
  "svc_ListPolicyVersions svc = invoke Call_ListPolicyVersions (ListPolicyVersions svc)"

definition svc_DeletePolicyVersion where
  "svc_DeletePolicyVersion svc = invoke Call_DeletePolicyVersion (DeletePolicyVersion svc)"

definition svc_DeletePolicy where
  "svc_DeletePolicy svc = invoke Call_DeletePolicy (DeletePolicy svc)"

definition svc_GetPolicy where
  "svc_GetPolicy svc = invoke Call_GetPolicy (GetPolicy svc)"

definition svc_GetPolicyVersion where
  "svc_GetPolicyVersion svc = invoke Call_GetPolicyVersion (GetPolicyVersion svc)"

subsection \<open>The package-level functions\<close>

text \<open>
  \<open>PolicyDocument\<close> is declared in another file of the package; it stays a type
  parameter \<open>'pd\<close>, and \<open>json.Marshal\<close> on it is the parameter \<open>marshal\<close>, which gives
  the bytes as a string or the marshalling error.
\<close>

type_synonym 'pd marshaller = "'pd \<Rightarrow> go_error + string"

definition createPolicy ::
  "'pd marshaller \<Rightarrow> 's IAMAPI \<Rightarrow> string \<Rightarrow> string \<Rightarrow> 'pd \<Rightarrow> 's world
     \<Rightarrow> (CreatePolicyOutput option \<times> go_error option) outcome \<times> 's world" where
  "createPolicy marshal svc polName polDesc pd w =
     (case marshal pd of
        Inl err \<Rightarrow> (Return (None, Some err), w)
      | Inr b \<Rightarrow>
          (case svc_CreatePolicy svc (CreatePolicyInput (Some b) (Some polDesc) (Some polName)) w of
             ((result, err), w') \<Rightarrow>
               if err \<noteq> None then (Return (None, err), w')
               else (Return (result, None), w')))"

definition updatePolicy ::
  "'pd marshaller \<Rightarrow> 's IAMAPI \<Rightarrow> ARN \<Rightarrow> 'pd \<Rightarrow> 's world
     \<Rightarrow> (CreatePolicyVersionOutput option \<times> go_error option) outcome \<times> 's world" where
  "updatePolicy marshal svc policyArn pd w =
     (case marshal pd of
        Inl err \<Rightarrow> (Return (None, Some err), w)
      | Inr b \<Rightarrow>
          (case svc_CreatePolicyVersion svc
                  (CreatePolicyVersionInput (Some b) (Some (ARN_String policyArn)) (Some True)) w of
             ((result, err), w') \<Rightarrow>
               if err \<noteq> None then (Return (None, err), w')
               else (Return (result, None), w')))"

text \<open>
  The loop of \<open>deletePolicy\<close> over \<open>listPolicyOut.Versions\<close>. \<open>Return None\<close> means the
  loop ran to its end; \<open>Return (Some err)\<close> is the \<open>return nil, err\<close> inside it; a
  \<open>nil\<close> element panics at \<open>version.IsDefaultVersion\<close>.
\<close>

fun deleteVersions ::
  "'s IAMAPI \<Rightarrow> ARN \<Rightarrow> PolicyVersion option list \<Rightarrow> 's world
     \<Rightarrow> go_error option outcome \<times> 's world" where
  "deleteVersions svc arn [] w = (Return None, w)"
| "deleteVersions svc arn (version # versions) w =
     (case version of
        None \<Rightarrow> (Panic NilDereference, w)
      | Some v \<Rightarrow>
          if \<not> BoolValue (IsDefaultVersion v) then
            (case svc_DeletePolicyVersion svc
                    (DeletePolicyVersionInput (Some (ARN_String arn)) (VersionId v)) w of
               ((out, err), w') \<Rightarrow>
                 if err \<noteq> None then (Return err, w')
                 else deleteVersions svc arn versions w')
          else deleteVersions svc arn versions w)"

definition deletePolicy ::
  "'s IAMAPI \<Rightarrow> ARN \<Rightarrow> 's world
     \<Rightarrow> (DeletePolicyOutput option \<times> go_error option) outcome \<times> 's world" where
  "deletePolicy svc arn w =
     (case svc_ListPolicyVersions svc (ListPolicyVersionsInput (Some (ARN_String arn))) w of
        ((listPolicyOut, err), w1) \<Rightarrow>
          if err \<noteq> None then (Return (None, err), w1)
          else (case listPolicyOut of
                  None \<Rightarrow> (Panic NilDereference, w1)
                | Some (ListPolicyVersionsOutput versions) \<Rightarrow>
                    (case deleteVersions svc arn versions w1 of
                       (Panic x, w2) \<Rightarrow> (Panic x, w2)
                     | (Return (Some e), w2) \<Rightarrow> (Return (None, Some e), w2)
                     | (Return None, w2) \<Rightarrow>
                         (case svc_DeletePolicy svc (DeletePolicyInput (Some (ARN_String arn))) w2 of
                            ((res, err), w3) \<Rightarrow>
                              (case err of
                                 None \<Rightarrow> (Return (res, None), w3)
                               | Some e \<Rightarrow>
                                   (case awserr_Code e of
                                      None \<Rightarrow> (Panic InterfaceConversion, w3)
                                    | Some code \<Rightarrow>
                                        if code \<noteq> ErrCodeNoSuchEntityException
                                        then (Return (None, err), w3)
                                        else (Return (res, None), w3)))))))"

definition getPolicy ::
  "'s IAMAPI \<Rightarrow> ARN \<Rightarrow> 's world
     \<Rightarrow> (GetPolicyOutput option \<times> go_error option) outcome \<times> 's world" where
  "getPolicy svc arn w =
     (case svc_GetPolicy svc (GetPolicyInput (Some (ARN_String arn))) w of
        ((result, err), w') \<Rightarrow>
          if err \<noteq> None then (Return (None, err), w')
          else (Return (result, None), w'))"

text \<open>\<open>po\<close> is passed by value; \<open>po.Policy.Arn\<close> reads through the pointer \<open>po.Policy\<close>.\<close>

definition getPolicyVersion ::
  "'s IAMAPI \<Rightarrow> GetPolicyOutput \<Rightarrow> 's world
     \<Rightarrow> (GetPolicyVersionOutput option \<times> go_error option) outcome \<times> 's world" where
  "getPolicyVersion svc po w =
     (case po of
        GetPolicyOutput None \<Rightarrow> (Panic NilDereference, w)
      | GetPolicyOutput (Some pol) \<Rightarrow>
          (case svc_GetPolicyVersion svc (GetPolicyVersionInput (Arn pol) (DefaultVersionId pol)) w of
             ((result, err), w') \<Rightarrow>
               if err \<noteq> None then (Return (None, err), w')
               else (Return (result, None), w')))"

subsection \<open>\<open>PolicyInstance\<close> and its methods\<close>

record 'pd PolicyInstance =
  Name :: string
  Description :: string
  PolicyDocument :: 'pd
  arn :: ARN

definition NewPolicyInstance :: "string \<Rightarrow> string \<Rightarrow> 'pd \<Rightarrow> 'pd PolicyInstance" where
  "NewPolicyInstance name description policyDoc =
     \<lparr>Name = name, Description = description, PolicyDocument = policyDoc, arn = ARN_zero\<rparr>"

definition NewExistingPolicyInstance ::
  "string \<Rightarrow> string \<Rightarrow> 'pd \<Rightarrow> ARN \<Rightarrow> 'pd PolicyInstance" where
  "NewExistingPolicyInstance name description policyDoc a =
     \<lparr>Name = name, Description = description, PolicyDocument = policyDoc, arn = a\<rparr>"

text \<open>
  The methods have a pointer receiver, so each returns the instance as it is after the
  call, next to its Go result and the world. A method that takes \<open>svc\<close> takes the
  world as well, whether or not it uses either. The receiver is taken to be a
  non-\<open>nil\<close> pointer.
\<close>

definition IsCreated ::
  "'s IAMAPI \<Rightarrow> 'pd PolicyInstance \<Rightarrow> 's world \<Rightarrow> bool \<times> 'pd PolicyInstance \<times> 's world" where
  "IsCreated svc p w = (ARN_String (arn p) \<noteq> ARN_String ARN_zero, p, w)"

definition PolicyInstance_ARN :: "'pd PolicyInstance \<Rightarrow> ARN \<times> 'pd PolicyInstance" where
  "PolicyInstance_ARN p = (arn p, p)"

definition Create ::
  "'pd marshaller \<Rightarrow> 's IAMAPI \<Rightarrow> 'pd PolicyInstance \<Rightarrow> 's world
     \<Rightarrow> go_error option outcome \<times> 'pd PolicyInstance \<times> 's world" where
  "Create marshal svc p w =
     (case createPolicy marshal svc (Name p) (Description p) (PolicyDocument p) w of
        (Panic x, w') \<Rightarrow> (Panic x, p, w')
      | (Return (out, err), w') \<Rightarrow>
          if err \<noteq> None then (Return err, p, w')
          else (case out of
                  None \<Rightarrow> (Panic NilDereference, p, w')
                | Some (CreatePolicyOutput None) \<Rightarrow> (Panic NilDereference, p, w')
                | Some (CreatePolicyOutput (Some pol)) \<Rightarrow>
                    (case Parse (StringValue (Arn pol)) of
                       Inl e \<Rightarrow> (Return (Some e), p, w')
                     | Inr newarn \<Rightarrow> (Return None, p\<lparr>arn := newarn\<rparr>, w'))))"

definition Read ::
  "'s IAMAPI \<Rightarrow> 'pd PolicyInstance \<Rightarrow> 's world
     \<Rightarrow> go_error option outcome \<times> 'pd PolicyInstance \<times> 's world" where
  "Read svc p w = (Panic (PanicValue ''Implement me''), p, w)"

text \<open>\<open>fmt.Sprintf("Policy '%s' not yet created", name)\<close>; \<open>CHR 0x27\<close> is the quote.\<close>

definition not_yet_created :: "string \<Rightarrow> string" where
  "not_yet_created name = ''Policy '' @ [CHR 0x27] @ name @ [CHR 0x27] @ '' not yet created''"

definition Update ::
  "'pd marshaller \<Rightarrow> 's IAMAPI \<Rightarrow> 'pd PolicyInstance \<Rightarrow> 's world
     \<Rightarrow> go_error option outcome \<times> 'pd PolicyInstance \<times> 's world" where
  "Update marshal svc p w =
     (case IsCreated svc p w of
        (created, p1, w1) \<Rightarrow>
          if \<not> created
          then (Return (Some (NewInstanceNotYetCreatedError (not_yet_created (Name p1)))), p1, w1)
          else (case updatePolicy marshal svc (arn p1) (PolicyDocument p1) w1 of
                  (Panic x, w2) \<Rightarrow> (Panic x, p1, w2)
                | (Return (out, err), w2) \<Rightarrow>
                    if err \<noteq> None then (Return err, p1, w2) else (Return None, p1, w2)))"

definition Delete ::
  "'s IAMAPI \<Rightarrow> 'pd PolicyInstance \<Rightarrow> 's world
     \<Rightarrow> go_error option outcome \<times> 'pd PolicyInstance \<times> 's world" where
  "Delete svc p w =
     (case IsCreated svc p w of
        (created, p1, w1) \<Rightarrow>
          if \<not> created
          then (Return (Some (NewInstanceNotYetCreatedError (not_yet_created (Name p1)))), p1, w1)
          else (case deletePolicy svc (arn p1) w1 of
                  (Panic x, w2) \<Rightarrow> (Panic x, p1, w2)
                | (Return (out, err), w2) \<Rightarrow>
                    if err \<noteq> None then (Return err, p1, w2) else (Return None, p1, w2)))"

subsection \<open>The calls a listing asks for, and services with canned answers\<close>

text \<open>
  \<open>version_calls a vs\<close> is the list of \<open>DeletePolicyVersion\<close> requests that the listing
  \<open>vs\<close> asks for: one for every version whose \<open>IsDefaultVersion\<close> does not read as true,
  in the order of the listing.
\<close>

definition version_calls :: "ARN \<Rightarrow> PolicyVersion option list \<Rightarrow> sdk_call list" where
  "version_calls a vs =
     [Call_DeletePolicyVersion (DeletePolicyVersionInput (Some (ARN_String a)) (VersionId v)).
        Some v \<leftarrow> vs, \<not> BoolValue (IsDefaultVersion v)]"

text \<open>
  A service that answers every call with a fixed response and counts the calls it has
  served; the functions are run on it at concrete inputs below.
\<close>

definition canned_svc ::
  "(CreatePolicyOutput option \<times> go_error option) \<Rightarrow> go_error option
     \<Rightarrow> (ListPolicyVersionsOutput option \<times> go_error option) \<Rightarrow> go_error option
     \<Rightarrow> go_error option \<Rightarrow> nat IAMAPI" where
  "canned_svc cp cv ls dv dp =
     \<lparr>CreatePolicy = (\<lambda>i n. (cp, Suc n)),
      CreatePolicyVersion = (\<lambda>i n. ((Some (CreatePolicyVersionOutput None), cv), Suc n)),
      ListPolicyVersions = (\<lambda>i n. (ls, Suc n)),
      DeletePolicyVersion = (\<lambda>i n. ((Some DeletePolicyVersionOutput, dv), Suc n)),
      DeletePolicy = (\<lambda>i n. ((Some DeletePolicyOutput, dp), Suc n)),
      GetPolicy = (\<lambda>i n. ((Some (GetPolicyOutput None), None), Suc n)),
      GetPolicyVersion = (\<lambda>i n. ((Some (GetPolicyVersionOutput None), None), Suc n))\<rparr>"

definition sample_arn :: ARN where
  "sample_arn = \<lparr>Partition = ''aws'', Service = ''iam'', Region = [],
                 AccountID = ''42'', Resource = ''policy/p''\<rparr>"

definition world0 :: "nat world" where
  "world0 = \<lparr>calls = [], remote = 0\<rparr>"

definition sample_versions :: "PolicyVersion option list" where
  "sample_versions =
     [Some \<lparr>IsDefaultVersion = Some True, VersionId = Some ''v1''\<rparr>,
      Some \<lparr>IsDefaultVersion = Some False, VersionId = Some ''v2''\<rparr>,
      Some \<lparr>IsDefaultVersion = None, VersionId = Some ''v3''\<rparr>]"

definition sample_policy :: Policy where
  "sample_policy = \<lparr>Arn = Some ''arn:aws:iam::42:policy/p'', DefaultVersionId = Some ''v1''\<rparr>"

subsection \<open>The run of a delete, told from the service's side\<close>

text \<open>
  What follows describes the calls of a delete from the answers the service gives,
  independently of \<open>deletePolicy\<close> and its loop.
  \<^item> \<open>before_nil vs\<close> is the listing up to its first \<open>nil\<close> entry (all of it when there
    is none);
  \<^item> \<open>version_requests a vs\<close> are the \<open>DeletePolicyVersion\<close> requests for the versions of
    \<open>vs\<close> whose \<open>IsDefaultVersion\<close> does not read as true, in listing order
    (\<open>version_calls\<close> is the same list as logged calls);
  \<^item> \<open>answers svc reqs s\<close> are the errors the service gives when the requests are sent
    one after the other from state \<open>s\<close>, and \<open>state_after\<close> is the state it is left in;
  \<^item> \<open>leading_ok errs\<close> counts the answers before the first error;
  \<^item> \<open>delete_calls svc a s\<close> is the sequence of calls: \<open>ListPolicyVersions\<close>; then, if
    the listing succeeded, the version requests up to and including the first one
    that is answered with an error; then \<open>DeletePolicy\<close>, provided every version
    request was answered without error and the listing had no \<open>nil\<close> entry.
\<close>

definition version_requests :: "ARN \<Rightarrow> PolicyVersion option list \<Rightarrow> DeletePolicyVersionInput list" where
  "version_requests a vs =
     [DeletePolicyVersionInput (Some (ARN_String a)) (VersionId v).
        Some v \<leftarrow> vs, \<not> BoolValue (IsDefaultVersion v)]"

definition before_nil :: "'a option list \<Rightarrow> 'a option list" where
  "before_nil vs = takeWhile (\<lambda>x. x \<noteq> None) vs"

fun answers :: "'s IAMAPI \<Rightarrow> DeletePolicyVersionInput list \<Rightarrow> 's \<Rightarrow> go_error option list" where
  "answers svc [] s = []"
| "answers svc (i # rest) s =
     snd (fst (DeletePolicyVersion svc i s)) # answers svc rest (snd (DeletePolicyVersion svc i s))"

definition leading_ok :: "go_error option list \<Rightarrow> nat" where
  "leading_ok errs = length (takeWhile (\<lambda>e. e = None) errs)"

fun state_after :: "'s IAMAPI \<Rightarrow> DeletePolicyVersionInput list \<Rightarrow> 's \<Rightarrow> 's" where
  "state_after svc [] s = s"
| "state_after svc (i # rest) s = state_after svc rest (snd (DeletePolicyVersion svc i s))"

definition delete_calls :: "'s IAMAPI \<Rightarrow> ARN \<Rightarrow> 's \<Rightarrow> sdk_call list" where
  "delete_calls svc a s =
     Call_ListPolicyVersions (ListPolicyVersionsInput (Some (ARN_String a))) #
     (case ListPolicyVersions svc (ListPolicyVersionsInput (Some (ARN_String a))) s of
        ((Some (ListPolicyVersionsOutput vs), None), s1) \<Rightarrow>
          (let reqs = version_requests a (before_nil vs);
               k = leading_ok (answers svc reqs s1)
           in map Call_DeletePolicyVersion (take (Suc k) reqs) @
              (if k = length reqs \<and> None \<notin> set vs
               then [Call_DeletePolicy (DeletePolicyInput (Some (ARN_String a)))] else []))
      | _ \<Rightarrow> [])"

section \<open>Properties\<close>

subsection \<open>Basic facts\<close>

lemma ARN_String_zero_iff: "ARN_String a = ARN_String ARN_zero \<longleftrightarrow> a = ARN_zero"
proof
  assume h: "ARN_String a = ARN_String ARN_zero"
  from arg_cong[OF h, of length]
  have "Partition a = [] \<and> Service a = [] \<and> Region a = [] \<and> AccountID a = [] \<and> Resource a = []"
    by (simp add: ARN_String_def ARN_zero_def arnPrefix_def arnDelimiter_def)
  then show "a = ARN_zero" by (simp add: ARN_zero_def)
next
  assume "a = ARN_zero" then show "ARN_String a = ARN_String ARN_zero" by simp
qed

lemma sample_str: "ARN_String sample_arn = ''arn:aws:iam::42:policy/p''"
  by (simp add: ARN_String_def sample_arn_def arnPrefix_def arnDelimiter_def)

lemma Parse_sample: "Parse ''arn:aws:iam::42:policy/p'' = Inr sample_arn"
  by (simp add: Parse_def HasPrefix_def arnPrefix_def sample_arn_def eval_nat_numeral)

lemma Parse_empty: "Parse [] = Inl (PlainError ''arn: invalid prefix'')"
  by (simp add: Parse_def HasPrefix_def arnPrefix_def)

lemma sample_nonzero: "sample_arn \<noteq> ARN_zero"
  by (simp add: sample_arn_def ARN_zero_def)

lemma invoke_calls: "invoke tag m inp w = (r, w') \<Longrightarrow> calls w' = calls w @ [tag inp]"
  by (auto simp: invoke_def split: prod.splits)

lemma invoke_eq:
  "invoke tag m inp w =
     (fst (m inp (remote w)),
      \<lparr>calls = calls w @ [tag inp], remote = snd (m inp (remote w))\<rparr>)"
  by (simp add: invoke_def split: prod.splits)

lemma version_calls_simps:
  "version_calls a [] = []"
  "version_calls a (None # vs) = version_calls a vs"
  "version_calls a (Some v # vs) =
     (if \<not> BoolValue (IsDefaultVersion v)
      then Call_DeletePolicyVersion
             (DeletePolicyVersionInput (Some (ARN_String a)) (VersionId v)) # version_calls a vs
      else version_calls a vs)"
  by (simp_all add: version_calls_def)

lemma version_calls_only_non_default:
  assumes "Call_DeletePolicyVersion (DeletePolicyVersionInput pa vid) \<in> set (version_calls a vs)"
  shows "\<exists>v. Some v \<in> set vs \<and> \<not> BoolValue (IsDefaultVersion v)
             \<and> vid = VersionId v \<and> pa = Some (ARN_String a)"
  using assms
proof (induction vs)
  case Nil
  then show ?case by (simp add: version_calls_simps)
next
  case (Cons x vs)
  then show ?case
    by (cases x) (auto simp: version_calls_simps split: if_splits)
qed

subsection \<open>Marshalling and the request that is sent\<close>

lemma createPolicy_marshal_fail:
  "marshal pd = Inl e \<Longrightarrow>
     createPolicy marshal svc polName polDesc pd w = (Return (None, Some e), w)"
  by (simp add: createPolicy_def)

lemma createPolicy_marshal_ok:
  assumes "marshal pd = Inr b"
  shows "createPolicy marshal svc polName polDesc pd w =
     (case CreatePolicy svc (CreatePolicyInput (Some b) (Some polDesc) (Some polName)) (remote w) of
        ((result, err), s') \<Rightarrow>
          (Return (if err = None then result else None, err),
           \<lparr>calls = calls w
               @ [Call_CreatePolicy (CreatePolicyInput (Some b) (Some polDesc) (Some polName))],
            remote = s'\<rparr>))"
  using assms
  by (simp add: createPolicy_def svc_CreatePolicy_def invoke_def split: prod.splits)

lemma updatePolicy_marshal_fail:
  "marshal pd = Inl e \<Longrightarrow> updatePolicy marshal svc a pd w = (Return (None, Some e), w)"
  by (simp add: updatePolicy_def)

lemma updatePolicy_marshal_ok:
  assumes "marshal pd = Inr b"
  shows "updatePolicy marshal svc a pd w =
     (case CreatePolicyVersion svc
             (CreatePolicyVersionInput (Some b) (Some (ARN_String a)) (Some True)) (remote w) of
        ((result, err), s') \<Rightarrow>
          (Return (if err = None then result else None, err),
           \<lparr>calls = calls w
               @ [Call_CreatePolicyVersion
                    (CreatePolicyVersionInput (Some b) (Some (ARN_String a)) (Some True))],
            remote = s'\<rparr>))"
  using assms
  by (simp add: updatePolicy_def svc_CreatePolicyVersion_def invoke_def split: prod.splits)

text \<open>
  C7. \<open>createPolicy\<close> and \<open>updatePolicy\<close> marshal the document first. When that gives
  the string \<open>b\<close>, each makes exactly one SDK call, whose request carries \<open>b\<close> as its
  PolicyDocument: \<open>CreatePolicy\<close> with the given description and name, respectively
  \<open>CreatePolicyVersion\<close> with the printed ARN and SetAsDefault true. When marshalling
  fails with \<open>e\<close>, no call is made (the world is unchanged) and \<open>e\<close> is the error
  returned.
\<close>

theorem marshalled_document_is_sent:
  "(marshal pd = Inr b \<longrightarrow>
      calls (snd (createPolicy marshal svc polName polDesc pd w)) =
        calls w @ [Call_CreatePolicy (CreatePolicyInput (Some b) (Some polDesc) (Some polName))]
      \<and> calls (snd (updatePolicy marshal svc a pd w)) =
        calls w @ [Call_CreatePolicyVersion
                     (CreatePolicyVersionInput (Some b) (Some (ARN_String a)) (Some True))])
   \<and> (marshal pd = Inl e \<longrightarrow>
      createPolicy marshal svc polName polDesc pd w = (Return (None, Some e), w)
      \<and> updatePolicy marshal svc a pd w = (Return (None, Some e), w))"
  by (auto simp: createPolicy_marshal_fail updatePolicy_marshal_fail
        createPolicy_marshal_ok updatePolicy_marshal_ok split: prod.splits)

theorem marshalled_document_is_sent_witness:
  "(\<lambda>d. if d = [] then Inl (PlainError ''json: error'') else Inr (''{'' @ d @ ''}'')) ''x''
      = Inr ''{x}''
   \<and> calls (snd (createPolicy
                   (\<lambda>d. if d = [] then Inl (PlainError ''json: error'') else Inr (''{'' @ d @ ''}''))
                   (canned_svc (None, None) None (None, None) None None) ''n'' ''d'' ''x'' world0)) =
       [Call_CreatePolicy (CreatePolicyInput (Some ''{x}'') (Some ''d'') (Some ''n''))]
   \<and> (\<lambda>d. if d = [] then Inl (PlainError ''json: error'') else Inr (''{'' @ d @ ''}'')) []
      = Inl (PlainError ''json: error'')
   \<and> updatePolicy
       (\<lambda>d. if d = [] then Inl (PlainError ''json: error'') else Inr (''{'' @ d @ ''}''))
       (canned_svc (None, None) None (None, None) None None) sample_arn [] world0
       = (Return (None, Some (PlainError ''json: error'')), world0)"
  using marshalled_document_is_sent
     [of "\<lambda>d. if d = [] then Inl (PlainError ''json: error'') else Inr (''{'' @ d @ ''}'')"
         "''x''" "''{x}''" "canned_svc (None, None) None (None, None) None None"
         "''n''" "''d''" world0 sample_arn]
    marshalled_document_is_sent
     [of "\<lambda>d. if d = [] then Inl (PlainError ''json: error'') else Inr (''{'' @ d @ ''}'')"
         "[]" _ "canned_svc (None, None) None (None, None) None None"
         "''n''" "''d''" world0 sample_arn "PlainError ''json: error''"]
  by (simp add: world0_def)

subsection \<open>\<open>IsCreated\<close> and \<open>ARN\<close>\<close>

text \<open>
  C5. \<open>IsCreated\<close> answers true exactly when the stored ARN is not the zero-value ARN.
  The code compares the printed forms; printing is injective at the zero value, so
  this is the same as comparing the ARNs.
\<close>

theorem IsCreated_iff_arn_nonzero:
  "fst (IsCreated svc p w) = (arn p \<noteq> ARN_zero)"
  by (simp add: IsCreated_def ARN_String_zero_iff)

text \<open>
  C10. The answer of \<open>IsCreated\<close> is the same for any two services (of any kind, in
  any state); the call leaves the instance and the world, hence the log of SDK calls,
  as they were. \<open>ARN()\<close> returns the stored \<open>arn\<close> field and leaves the instance as it
  was.
\<close>

theorem IsCreated_ignores_service:
  "fst (IsCreated svc1 p w1) = fst (IsCreated svc2 p w2)
   \<and> snd (IsCreated svc1 p w1) = (p, w1)
   \<and> PolicyInstance_ARN p = (arn p, p)"
  by (simp add: IsCreated_def PolicyInstance_ARN_def)

lemma IsCreated_eq: "IsCreated svc p w = (arn p \<noteq> ARN_zero, p, w)"
  by (simp add: IsCreated_def ARN_String_zero_iff)

subsection \<open>The canned service, evaluated\<close>

lemma canned_list:
  "svc_ListPolicyVersions (canned_svc cp cv ls dv dp) i w =
     (ls, \<lparr>calls = calls w @ [Call_ListPolicyVersions i], remote = Suc (remote w)\<rparr>)"
  by (simp add: svc_ListPolicyVersions_def invoke_eq canned_svc_def)

lemma canned_delete:
  "svc_DeletePolicy (canned_svc cp cv ls dv dp) i w =
     ((Some DeletePolicyOutput, dp),
      \<lparr>calls = calls w @ [Call_DeletePolicy i], remote = Suc (remote w)\<rparr>)"
  by (simp add: svc_DeletePolicy_def invoke_eq canned_svc_def)

lemma canned_delete_version:
  "svc_DeletePolicyVersion (canned_svc cp cv ls dv dp) i w =
     ((Some DeletePolicyVersionOutput, dv),
      \<lparr>calls = calls w @ [Call_DeletePolicyVersion i], remote = Suc (remote w)\<rparr>)"
  by (simp add: svc_DeletePolicyVersion_def invoke_eq canned_svc_def)

subsection \<open>The loop over the listed versions\<close>

lemma deleteVersions_calls:
  "deleteVersions svc a vs w = (r, w') \<Longrightarrow>
     \<exists>new. calls w' = calls w @ new \<and> prefix new (version_calls a vs) \<and>
           (r = Return None \<longrightarrow> new = version_calls a vs)"
proof (induction vs arbitrary: w)
  case Nil
  then show ?case by (simp add: version_calls_simps)
next
  case (Cons x vs)
  show ?case
  proof (cases x)
    case None
    with Cons.prems show ?thesis by (auto simp: version_calls_simps)
  next
    case (Some v)
    show ?thesis
    proof (cases "BoolValue (IsDefaultVersion v)")
      case True
      with Some Cons.prems have "deleteVersions svc a vs w = (r, w')" by simp
      from Cons.IH[OF this] show ?thesis using Some True by (simp add: version_calls_simps)
    next
      case False
      let ?c = "Call_DeletePolicyVersion (DeletePolicyVersionInput (Some (ARN_String a)) (VersionId v))"
      obtain out err w1 where
        inv: "svc_DeletePolicyVersion svc (DeletePolicyVersionInput (Some (ARN_String a)) (VersionId v)) w = ((out, err), w1)"
        by (metis prod.exhaust)
      then have c1: "calls w1 = calls w @ [?c]"
        by (simp add: svc_DeletePolicyVersion_def invoke_calls)
      show ?thesis
      proof (cases err)
        case None
        with inv Some False Cons.prems have "deleteVersions svc a vs w1 = (r, w')" by simp
        from Cons.IH[OF this] obtain new where
          "calls w' = calls w1 @ new" "prefix new (version_calls a vs)"
          "r = Return None \<longrightarrow> new = version_calls a vs" by blast
        then show ?thesis using c1 Some False
          by (intro exI[of _ "?c # new"]) (simp add: version_calls_simps)
      next
        case (Some e)
        with inv \<open>x = Some v\<close> False Cons.prems have "r = Return (Some e)" "w' = w1" by simp_all
        then show ?thesis using c1 \<open>x = Some v\<close> False
          by (intro exI[of _ "[?c]"]) (simp add: version_calls_simps)
      qed
    qed
  qed
qed

lemma deleteVersions_completes:
  assumes "None \<notin> set vs" and "\<And>i s. snd (fst (DeletePolicyVersion svc i s)) = None"
  shows "fst (deleteVersions svc a vs w) = Return None"
  using assms(1)
proof (induction vs arbitrary: w)
  case Nil
  then show ?case by simp
next
  case (Cons x vs)
  then obtain v where x: "x = Some v" by (cases x) auto
  from Cons have IH: "\<And>w. fst (deleteVersions svc a vs w) = Return None" by simp
  let ?i = "DeletePolicyVersionInput (Some (ARN_String a)) (VersionId v)"
  obtain out err w1 where inv: "svc_DeletePolicyVersion svc ?i w = ((out, err), w1)"
    by (metis prod.exhaust)
  then have "err = snd (fst (DeletePolicyVersion svc ?i (remote w)))"
    by (simp add: svc_DeletePolicyVersion_def invoke_eq)
  with assms(2) have "err = None" by simp
  with inv x IH show ?case by simp
qed

lemma deleteVersions_error_is_sdk_error:
  "deleteVersions svc a vs w = (Return (Some e), w') \<Longrightarrow>
     \<exists>v w0 out. Some v \<in> set vs \<and>
        svc_DeletePolicyVersion svc (DeletePolicyVersionInput (Some (ARN_String a)) (VersionId v)) w0
          = ((out, Some e), w')"
proof (induction vs arbitrary: w)
  case Nil
  then show ?case by simp
next
  case (Cons x vs)
  show ?case
  proof (cases x)
    case None
    with Cons.prems show ?thesis by simp
  next
    case (Some v)
    show ?thesis
    proof (cases "BoolValue (IsDefaultVersion v)")
      case True
      with Some Cons.prems have "deleteVersions svc a vs w = (Return (Some e), w')" by simp
      from Cons.IH[OF this] show ?thesis by auto
    next
      case False
      obtain out err w1 where
        inv: "svc_DeletePolicyVersion svc
                (DeletePolicyVersionInput (Some (ARN_String a)) (VersionId v)) w = ((out, err), w1)"
        by (metis prod.exhaust)
      show ?thesis
      proof (cases err)
        case None
        with inv Some False Cons.prems
        have "deleteVersions svc a vs w1 = (Return (Some e), w')" by simp
        from Cons.IH[OF this] show ?thesis by auto
      next
        case (Some e')
        with inv \<open>x = Some v\<close> False Cons.prems have "e' = e" "w1 = w'" by simp_all
        with inv Some \<open>x = Some v\<close> show ?thesis by auto
      qed
    qed
  qed
qed

subsection \<open>\<open>deletePolicy\<close>, branch by branch\<close>

lemma deletePolicy_list_error:
  "svc_ListPolicyVersions svc (ListPolicyVersionsInput (Some (ARN_String a))) w = ((out, Some e), w1)
   \<Longrightarrow> deletePolicy svc a w = (Return (None, Some e), w1)"
  by (simp add: deletePolicy_def)

lemma deletePolicy_list_nil:
  "svc_ListPolicyVersions svc (ListPolicyVersionsInput (Some (ARN_String a))) w = ((None, None), w1)
   \<Longrightarrow> deletePolicy svc a w = (Panic NilDereference, w1)"
  by (simp add: deletePolicy_def)

lemma deletePolicy_versions_stop:
  assumes "svc_ListPolicyVersions svc (ListPolicyVersionsInput (Some (ARN_String a))) w
             = ((Some (ListPolicyVersionsOutput vs), None), w1)"
    and "deleteVersions svc a vs w1 = (r, w2)" and "r \<noteq> Return None"
  shows "deletePolicy svc a w =
           (case r of Panic x \<Rightarrow> Panic x | Return e \<Rightarrow> Return (None, e), w2)"
  using assms by (auto simp: deletePolicy_def split: outcome.splits option.splits)

lemma deletePolicy_reach:
  assumes "svc_ListPolicyVersions svc (ListPolicyVersionsInput (Some (ARN_String a))) w
             = ((Some (ListPolicyVersionsOutput vs), None), w1)"
    and "deleteVersions svc a vs w1 = (Return None, w2)"
    and "svc_DeletePolicy svc (DeletePolicyInput (Some (ARN_String a))) w2 = ((res, err), w3)"
  shows "deletePolicy svc a w =
           (case err of
              None \<Rightarrow> (Return (res, None), w3)
            | Some e \<Rightarrow>
                (case awserr_Code e of
                   None \<Rightarrow> (Panic InterfaceConversion, w3)
                 | Some code \<Rightarrow>
                     if code = ErrCodeNoSuchEntityException then (Return (res, None), w3)
                     else (Return (None, Some e), w3)))"
  using assms by (simp add: deletePolicy_def split: option.splits)

lemma deletePolicy_trace:
  assumes L: "svc_ListPolicyVersions svc (ListPolicyVersionsInput (Some (ARN_String a))) w
             = ((out, err), w1)"
  shows "\<exists>new. calls (snd (deletePolicy svc a w)) =
            calls w @ Call_ListPolicyVersions (ListPolicyVersionsInput (Some (ARN_String a))) # new
     \<and> (case (out, err) of
          (Some (ListPolicyVersionsOutput vs), None) \<Rightarrow>
             prefix new (version_calls a vs @ [Call_DeletePolicy (DeletePolicyInput (Some (ARN_String a)))])
           \<and> (Call_DeletePolicy (DeletePolicyInput (Some (ARN_String a))) \<in> set new \<longrightarrow>
                new = version_calls a vs @ [Call_DeletePolicy (DeletePolicyInput (Some (ARN_String a)))])
           \<and> (None \<notin> set vs \<and> (\<forall>i s. snd (fst (DeletePolicyVersion svc i s)) = None) \<longrightarrow>
                new = version_calls a vs @ [Call_DeletePolicy (DeletePolicyInput (Some (ARN_String a)))])
        | _ \<Rightarrow> new = [])"
proof -
  let ?l = "Call_ListPolicyVersions (ListPolicyVersionsInput (Some (ARN_String a)))"
  let ?d = "Call_DeletePolicy (DeletePolicyInput (Some (ARN_String a)))"
  from L have c1: "calls w1 = calls w @ [?l]"
    by (simp add: svc_ListPolicyVersions_def invoke_calls)
  show ?thesis
  proof (cases err)
    case (Some e)
    with L have "deletePolicy svc a w = (Return (None, Some e), w1)"
      by (simp add: deletePolicy_list_error)
    with c1 Some show ?thesis by (simp split: option.splits ListPolicyVersionsOutput.splits)
  next
    case None
    show ?thesis
    proof (cases out)
      case None
      with L \<open>err = None\<close> have "deletePolicy svc a w = (Panic NilDereference, w1)"
        by (simp add: deletePolicy_list_nil)
      with c1 None \<open>err = None\<close> show ?thesis by simp
    next
      case (Some lo)
      then obtain vs where out: "out = Some (ListPolicyVersionsOutput vs)" by (cases lo) simp
      obtain r w2 where V: "deleteVersions svc a vs w1 = (r, w2)" by (metis prod.exhaust)
      from deleteVersions_calls[OF V] obtain pre where
        d: "calls w2 = calls w1 @ pre" "prefix pre (version_calls a vs)"
           "r = Return None \<longrightarrow> pre = version_calls a vs" by blast
      have nod: "?d \<notin> set (version_calls a vs)" by (auto simp: version_calls_def)
      with d(2) have nod': "?d \<notin> set pre" by (meson set_mono_prefix subsetD)
      show ?thesis
      proof (cases "r = Return None")
        case False
        from deletePolicy_versions_stop[OF L[unfolded out \<open>err = None\<close>] V False]
        have "snd (deletePolicy svc a w) = w2" by simp
        moreover have "\<not> (None \<notin> set vs \<and> (\<forall>i s. snd (fst (DeletePolicyVersion svc i s)) = None))"
        proof
          assume h: "None \<notin> set vs \<and> (\<forall>i s. snd (fst (DeletePolicyVersion svc i s)) = None)"
          then have "fst (deleteVersions svc a vs w1) = Return None"
            by (intro deleteVersions_completes) simp_all
          with V False show False by simp
        qed
        ultimately show ?thesis using c1 d nod' out \<open>err = None\<close>
          by (intro exI[of _ pre]) (auto simp: prefix_def)
      next
        case True
        obtain res e3 w3 where D: "svc_DeletePolicy svc (DeletePolicyInput (Some (ARN_String a))) w2 = ((res, e3), w3)"
          by (metis prod.exhaust)
        then have c3: "calls w3 = calls w2 @ [?d]"
          by (simp add: svc_DeletePolicy_def invoke_calls)
        from deletePolicy_reach[OF L[unfolded out \<open>err = None\<close>] V[unfolded True] D]
        have "snd (deletePolicy svc a w) = w3" by (simp split: option.splits)
        then show ?thesis using c1 c3 d True out \<open>err = None\<close>
          by (intro exI[of _ "pre @ [?d]"]) simp
      qed
    qed
  qed
qed

lemma deletePolicy_delete_error:
  assumes "svc_ListPolicyVersions svc (ListPolicyVersionsInput (Some (ARN_String a))) w
             = ((Some (ListPolicyVersionsOutput vs), None), w1)"
    and "deleteVersions svc a vs w1 = (Return None, w2)"
    and "svc_DeletePolicy svc (DeletePolicyInput (Some (ARN_String a))) w2 = ((res, Some e), w3)"
    and "awserr_Code e = Some code" and "code \<noteq> ErrCodeNoSuchEntityException"
  shows "deletePolicy svc a w = (Return (None, Some e), w3)"
  using deletePolicy_reach[OF assms(1-3)] assms(4,5) by simp

lemma deletePolicy_first_call:
  "\<exists>rest. calls (snd (deletePolicy svc a w)) =
      calls w @ Call_ListPolicyVersions (ListPolicyVersionsInput (Some (ARN_String a))) # rest"
proof -
  obtain out err w1 where
    "svc_ListPolicyVersions svc (ListPolicyVersionsInput (Some (ARN_String a))) w = ((out, err), w1)"
    by (metis prod.exhaust)
  from deletePolicy_trace[OF this] show ?thesis by blast
qed

subsection \<open>The calls of \<open>deletePolicy\<close>, exactly\<close>

lemma before_nil_simps:
  "before_nil [] = []"
  "before_nil (None # vs) = []"
  "before_nil (Some v # vs) = Some v # before_nil vs"
  by (simp_all add: before_nil_def)

lemma before_nil_no_nil: "None \<notin> set vs \<Longrightarrow> before_nil vs = vs"
proof (induction vs)
  case Nil
  show ?case by (simp add: before_nil_simps)
next
  case (Cons x vs)
  then show ?case by (cases x) (simp_all add: before_nil_simps)
qed

lemma version_requests_simps:
  "version_requests a [] = []"
  "version_requests a (None # vs) = version_requests a vs"
  "version_requests a (Some v # vs) =
     (if \<not> BoolValue (IsDefaultVersion v)
      then DeletePolicyVersionInput (Some (ARN_String a)) (VersionId v) # version_requests a vs
      else version_requests a vs)"
  by (simp_all add: version_requests_def)

lemma version_calls_requests:
  "version_calls a vs = map Call_DeletePolicyVersion (version_requests a vs)"
proof (induction vs)
  case Nil
  show ?case by (simp add: version_calls_simps version_requests_simps)
next
  case (Cons x vs)
  then show ?case by (cases x) (simp_all add: version_calls_simps version_requests_simps)
qed

lemma length_answers: "length (answers svc reqs s) = length reqs"
  by (induction reqs arbitrary: s) simp_all

lemma leading_ok_le: "leading_ok (answers svc reqs s) \<le> length reqs"
  using length_takeWhile_le[of "\<lambda>e. e = None" "answers svc reqs s"]
  by (simp add: leading_ok_def length_answers)

lemma leading_ok_simps:
  "leading_ok [] = 0"
  "leading_ok (None # errs) = Suc (leading_ok errs)"
  "leading_ok (Some e # errs) = 0"
  by (simp_all add: leading_ok_def)

lemma leading_ok_all:
  "(\<forall>e \<in> set errs. e = None) \<Longrightarrow> leading_ok errs = length errs"
  by (induction errs) (simp_all add: leading_ok_def)

lemma leading_ok_all_conv:
  "leading_ok errs = length errs \<Longrightarrow> \<forall>e \<in> set errs. e = None"
proof (induction errs)
  case Nil
  show ?case by simp
next
  case (Cons x errs)
  then show ?case by (cases x) (simp_all add: leading_ok_simps)
qed

lemma leading_ok_nth:
  "leading_ok errs < length errs \<Longrightarrow> errs ! leading_ok errs \<noteq> None"
  unfolding leading_ok_def by (rule nth_length_takeWhile)

lemma world_eta: "\<lparr>calls = calls w, remote = remote w\<rparr> = (w :: 's world)"
  by simp

lemma deleteVersions_exact:
  "deleteVersions svc a vs w =
     (let reqs = version_requests a (before_nil vs);
          errs = answers svc reqs (remote w);
          sent = take (Suc (leading_ok errs)) reqs
      in (if leading_ok errs < length reqs then Return (errs ! leading_ok errs)
          else if None \<in> set vs then Panic NilDereference else Return None,
          \<lparr>calls = calls w @ map Call_DeletePolicyVersion sent,
           remote = state_after svc sent (remote w)\<rparr>))"
proof (induction vs arbitrary: w)
  case Nil
  show ?case by (simp add: version_requests_simps leading_ok_simps before_nil_simps)
next
  case (Cons x vs)
  show ?case
  proof (cases x)
    case None
    then show ?thesis by (simp add: version_requests_simps leading_ok_simps before_nil_simps)
  next
    case (Some v)
    show ?thesis
    proof (cases "BoolValue (IsDefaultVersion v)")
      case True
      with Some show ?thesis
        using Cons.IH[of w] by (simp add: version_requests_simps Let_def before_nil_simps)
    next
      case False
      let ?i = "DeletePolicyVersionInput (Some (ARN_String a)) (VersionId v)"
      let ?err = "snd (fst (DeletePolicyVersion svc ?i (remote w)))"
      let ?s' = "snd (DeletePolicyVersion svc ?i (remote w))"
      let ?w' = "\<lparr>calls = calls w @ [Call_DeletePolicyVersion ?i], remote = ?s'\<rparr>"
      have inv: "svc_DeletePolicyVersion svc ?i w = ((fst (fst (DeletePolicyVersion svc ?i (remote w))), ?err), ?w')"
        by (simp add: svc_DeletePolicyVersion_def invoke_eq)
      show ?thesis
      proof (cases ?err)
        case None
        have "deleteVersions svc a (x # vs) w = deleteVersions svc a vs ?w'"
          using Some False inv None by simp
        also note Cons.IH[of ?w']
        finally show ?thesis
          using Some False None
          by (simp add: version_requests_simps Let_def leading_ok_simps before_nil_simps)
      next
        case (Some e)
        have "deleteVersions svc a (x # vs) w = (Return (Some e), ?w')"
          using \<open>x = Some v\<close> False inv Some by simp
        then show ?thesis
          using \<open>x = Some v\<close> False Some
          by (simp add: version_requests_simps Let_def leading_ok_simps before_nil_simps)
      qed
    qed
  qed
qed

lemma deletePolicy_calls_exact:
  "calls (snd (deletePolicy svc a w)) = calls w @ delete_calls svc a (remote w)"
proof -
  let ?li = "ListPolicyVersionsInput (Some (ARN_String a))"
  let ?d = "Call_DeletePolicy (DeletePolicyInput (Some (ARN_String a)))"
  obtain lout lerr s1 where r: "ListPolicyVersions svc ?li (remote w) = ((lout, lerr), s1)"
    by (metis prod.exhaust)
  let ?w1 = "\<lparr>calls = calls w @ [Call_ListPolicyVersions ?li], remote = s1\<rparr>"
  from r have L: "svc_ListPolicyVersions svc ?li w = ((lout, lerr), ?w1)"
    by (simp add: svc_ListPolicyVersions_def invoke_eq)
  show ?thesis
  proof (cases lerr)
    case (Some e)
    with L have "deletePolicy svc a w = (Return (None, Some e), ?w1)"
      by (simp add: deletePolicy_list_error)
    with Some r show ?thesis
      by (simp add: delete_calls_def split: option.splits ListPolicyVersionsOutput.splits)
  next
    case None
    show ?thesis
    proof (cases lout)
      case None
      with L \<open>lerr = None\<close> have "deletePolicy svc a w = (Panic NilDereference, ?w1)"
        by (simp add: deletePolicy_list_nil)
      with None \<open>lerr = None\<close> r show ?thesis
        by (simp add: delete_calls_def)
    next
      case (Some lo)
      then obtain vs where out: "lout = Some (ListPolicyVersionsOutput vs)" by (cases lo) simp
      let ?reqs = "version_requests a (before_nil vs)"
      let ?k = "leading_ok (answers svc ?reqs s1)"
      let ?sent = "take (Suc ?k) ?reqs"
      let ?w2 = "\<lparr>calls = calls ?w1 @ map Call_DeletePolicyVersion ?sent,
                 remote = state_after svc ?sent s1\<rparr>"
      have V: "deleteVersions svc a vs ?w1 =
                 (if ?k < length ?reqs then Return (answers svc ?reqs s1 ! ?k)
                  else if None \<in> set vs then Panic NilDereference else Return None, ?w2)"
        using deleteVersions_exact[of svc a vs ?w1] by (simp add: Let_def)
      have kle: "?k \<le> length ?reqs" by (rule leading_ok_le)
      have dc: "delete_calls svc a (remote w) =
                  Call_ListPolicyVersions ?li # map Call_DeletePolicyVersion ?sent @
                    (if ?k = length ?reqs \<and> None \<notin> set vs then [?d] else [])"
        unfolding delete_calls_def r out \<open>lerr = None\<close> by (simp add: Let_def)
      show ?thesis
      proof (cases "?k = length ?reqs \<and> None \<notin> set vs")
        case True
        with V have V': "deleteVersions svc a vs ?w1 = (Return None, ?w2)" by simp
        obtain res e3 w3 where
          D: "svc_DeletePolicy svc (DeletePolicyInput (Some (ARN_String a))) ?w2 = ((res, e3), w3)"
          by (metis prod.exhaust)
        then have c3: "calls w3 = calls ?w2 @ [?d]"
          by (simp add: svc_DeletePolicy_def invoke_calls)
        from deletePolicy_reach[OF L[unfolded out \<open>lerr = None\<close>] V' D]
        have "snd (deletePolicy svc a w) = w3" by (simp split: option.splits)
        with c3 dc True show ?thesis by simp
      next
        case False
        obtain r' where Vr: "deleteVersions svc a vs ?w1 = (r', ?w2)" using V by simp
        have "r' \<noteq> Return None"
        proof (cases "?k < length ?reqs")
          case True
          then have "answers svc ?reqs s1 ! ?k \<noteq> None"
            by (intro leading_ok_nth) (simp add: length_answers)
          with V Vr True show ?thesis by auto
        next
          case nl: False
          with kle False have "None \<in> set vs" by auto
          with V Vr nl show ?thesis by auto
        qed
        from deletePolicy_versions_stop[OF L[unfolded out \<open>lerr = None\<close>] Vr this]
        have "snd (deletePolicy svc a w) = ?w2" by simp
        with dc False show ?thesis by simp
      qed
    qed
  qed
qed

lemma delete_calls_complete:
  assumes "ListPolicyVersions svc (ListPolicyVersionsInput (Some (ARN_String a))) s
             = ((Some (ListPolicyVersionsOutput vs), None), s1)"
    and "None \<notin> set vs"
    and "\<forall>e \<in> set (answers svc (version_requests a vs) s1). e = None"
  shows "delete_calls svc a s =
           Call_ListPolicyVersions (ListPolicyVersionsInput (Some (ARN_String a))) #
             version_calls a vs @ [Call_DeletePolicy (DeletePolicyInput (Some (ARN_String a)))]"
proof -
  have k: "leading_ok (answers svc (version_requests a vs) s1) = length (version_requests a vs)"
    using leading_ok_all[OF assms(3)] by (simp add: length_answers)
  show ?thesis
    unfolding delete_calls_def assms(1)
    by (simp add: Let_def before_nil_no_nil[OF assms(2)] k assms(2) version_calls_requests)
qed

lemma delete_calls_DeletePolicy_only_after_all:
  assumes "Call_DeletePolicy d \<in> set (delete_calls svc a s)"
  shows "\<exists>vs s1. ListPolicyVersions svc (ListPolicyVersionsInput (Some (ARN_String a))) s
                    = ((Some (ListPolicyVersionsOutput vs), None), s1)
           \<and> None \<notin> set vs
           \<and> (\<forall>e \<in> set (answers svc (version_requests a vs) s1). e = None)
           \<and> delete_calls svc a s =
               Call_ListPolicyVersions (ListPolicyVersionsInput (Some (ARN_String a))) #
                 version_calls a vs @ [Call_DeletePolicy (DeletePolicyInput (Some (ARN_String a)))]"
proof -
  obtain lout lerr s1 where
    r: "ListPolicyVersions svc (ListPolicyVersionsInput (Some (ARN_String a))) s = ((lout, lerr), s1)"
    by (metis prod.exhaust)
  from assms obtain vs where out: "lout = Some (ListPolicyVersionsOutput vs)" "lerr = None"
    unfolding delete_calls_def r
    by (auto split: option.splits ListPolicyVersionsOutput.splits)
  let ?reqs = "version_requests a (before_nil vs)"
  let ?k = "leading_ok (answers svc ?reqs s1)"
  from assms have c: "?k = length ?reqs \<and> None \<notin> set vs"
    unfolding delete_calls_def r out
    by (auto simp: Let_def split: if_splits)
  then have nn: "None \<notin> set vs" by simp
  from c have k: "leading_ok (answers svc (version_requests a vs) s1)
                    = length (answers svc (version_requests a vs) s1)"
    by (simp add: before_nil_no_nil[OF nn] length_answers)
  then have all: "\<forall>e \<in> set (answers svc (version_requests a vs) s1). e = None"
    by (rule leading_ok_all_conv)
  from delete_calls_complete[OF r[unfolded out] nn all] r out nn all show ?thesis by blast
qed

lemma deletePolicy_complete_run:
  assumes "ListPolicyVersions svc (ListPolicyVersionsInput (Some (ARN_String a))) (remote w)
             = ((Some (ListPolicyVersionsOutput vs), None), s1)"
    and "None \<notin> set vs"
    and "\<forall>e \<in> set (answers svc (version_requests a vs) s1). e = None"
    and "DeletePolicy svc (DeletePolicyInput (Some (ARN_String a)))
           (state_after svc (version_requests a vs) s1) = ((res, err), s3)"
  shows "deletePolicy svc a w =
           (case err of
              None \<Rightarrow> Return (res, None)
            | Some e \<Rightarrow>
                (case awserr_Code e of
                   None \<Rightarrow> Panic InterfaceConversion
                 | Some code \<Rightarrow>
                     if code = ErrCodeNoSuchEntityException then Return (res, None)
                     else Return (None, Some e)),
            \<lparr>calls = calls w @ Call_ListPolicyVersions (ListPolicyVersionsInput (Some (ARN_String a))) #
                 version_calls a vs @ [Call_DeletePolicy (DeletePolicyInput (Some (ARN_String a)))],
             remote = s3\<rparr>)"
proof -
  let ?li = "ListPolicyVersionsInput (Some (ARN_String a))"
  let ?di = "DeletePolicyInput (Some (ARN_String a))"
  let ?reqs = "version_requests a vs"
  let ?w1 = "\<lparr>calls = calls w @ [Call_ListPolicyVersions ?li], remote = s1\<rparr>"
  let ?w2 = "\<lparr>calls = calls ?w1 @ map Call_DeletePolicyVersion ?reqs,
             remote = state_after svc ?reqs s1\<rparr>"
  have k: "leading_ok (answers svc ?reqs s1) = length ?reqs"
    using leading_ok_all[OF assms(3)] by (simp add: length_answers)
  have L: "svc_ListPolicyVersions svc ?li w = ((Some (ListPolicyVersionsOutput vs), None), ?w1)"
    using assms(1) by (simp add: svc_ListPolicyVersions_def invoke_eq)
  have V: "deleteVersions svc a vs ?w1 = (Return None, ?w2)"
    using deleteVersions_exact[of svc a vs ?w1]
    by (simp add: Let_def before_nil_no_nil[OF assms(2)] k assms(2))
  have D: "svc_DeletePolicy svc ?di ?w2 =
             ((res, err), \<lparr>calls = calls ?w2 @ [Call_DeletePolicy ?di], remote = s3\<rparr>)"
    using assms(4) by (simp add: svc_DeletePolicy_def invoke_eq)
  from deletePolicy_reach[OF L V D] show ?thesis
    by (simp add: version_calls_requests split: option.splits)
qed

lemma deletePolicy_list_failed:
  assumes "snd (fst (ListPolicyVersions svc (ListPolicyVersionsInput (Some (ARN_String a)))
                       (remote w))) = Some e"
  shows "fst (deletePolicy svc a w) = Return (None, Some e)"
proof -
  let ?li = "ListPolicyVersionsInput (Some (ARN_String a))"
  have "svc_ListPolicyVersions svc ?li w =
          ((fst (fst (ListPolicyVersions svc ?li (remote w))), Some e),
           \<lparr>calls = calls w @ [Call_ListPolicyVersions ?li],
            remote = snd (ListPolicyVersions svc ?li (remote w))\<rparr>)"
    using assms by (simp add: svc_ListPolicyVersions_def invoke_eq prod_eq_iff)
  from deletePolicy_list_error[OF this] show ?thesis by simp
qed

lemma deletePolicy_version_failed:
  assumes "ListPolicyVersions svc (ListPolicyVersionsInput (Some (ARN_String a))) (remote w)
             = ((Some (ListPolicyVersionsOutput vs), None), s1)"
    and "leading_ok (answers svc (version_requests a (before_nil vs)) s1)
           < length (version_requests a (before_nil vs))"
  shows "fst (deletePolicy svc a w) =
           Return (None, answers svc (version_requests a (before_nil vs)) s1
                           ! leading_ok (answers svc (version_requests a (before_nil vs)) s1))"
proof -
  let ?li = "ListPolicyVersionsInput (Some (ARN_String a))"
  let ?reqs = "version_requests a (before_nil vs)"
  let ?errs = "answers svc ?reqs s1"
  let ?k = "leading_ok ?errs"
  let ?w1 = "\<lparr>calls = calls w @ [Call_ListPolicyVersions ?li], remote = s1\<rparr>"
  have L: "svc_ListPolicyVersions svc ?li w = ((Some (ListPolicyVersionsOutput vs), None), ?w1)"
    using assms(1) by (simp add: svc_ListPolicyVersions_def invoke_eq)
  obtain w2 where V: "deleteVersions svc a vs ?w1 = (Return (?errs ! ?k), w2)"
    using deleteVersions_exact[of svc a vs ?w1] assms(2) by (simp add: Let_def)
  have "?errs ! ?k \<noteq> None"
    using assms(2) by (intro leading_ok_nth) (simp add: length_answers)
  then have "Return (?errs ! ?k) \<noteq> Return None" by simp
  from deletePolicy_versions_stop[OF L V this] show ?thesis by simp
qed

lemma canned_answers:
  "answers (canned_svc cp cv ls dv dp) reqs s = map (\<lambda>i. dv) reqs"
  by (induction reqs arbitrary: s) (simp_all add: canned_svc_def)

lemma canned_state_after:
  "state_after (canned_svc cp cv ls dv dp) reqs s = s + length reqs"
  by (induction reqs arbitrary: s) (simp_all add: canned_svc_def)

lemma canned_raw:
  "ListPolicyVersions (canned_svc cp cv ls dv dp) i s = (ls, Suc s)"
  "DeletePolicy (canned_svc cp cv ls dv dp) j s = ((Some DeletePolicyOutput, dp), Suc s)"
  "CreatePolicyVersion (canned_svc cp cv ls dv dp) k s
     = ((Some (CreatePolicyVersionOutput None), cv), Suc s)"
  "CreatePolicy (canned_svc cp cv ls dv dp) l s = (cp, Suc s)"
  by (simp_all add: canned_svc_def)

lemma sample_requests:
  "version_requests sample_arn sample_versions =
     [DeletePolicyVersionInput (Some ''arn:aws:iam::42:policy/p'') (Some ''v2''),
      DeletePolicyVersionInput (Some ''arn:aws:iam::42:policy/p'') (Some ''v3'')]"
  by (simp add: sample_versions_def version_requests_simps BoolValue_def sample_str)

lemma sample_version_calls:
  "version_calls sample_arn sample_versions =
     [Call_DeletePolicyVersion
        (DeletePolicyVersionInput (Some ''arn:aws:iam::42:policy/p'') (Some ''v2'')),
      Call_DeletePolicyVersion
        (DeletePolicyVersionInput (Some ''arn:aws:iam::42:policy/p'') (Some ''v3''))]"
  by (simp add: version_calls_requests sample_requests)

lemma sample_versions_no_nil: "None \<notin> set sample_versions"
  by (simp add: sample_versions_def)

text \<open>
  C2, as stated, fails. The listing below has two versions that are not the default,
  \<open>v2\<close> and \<open>v3\<close>; the service refuses to delete a version. \<open>deletePolicy\<close> makes
  the call for \<open>v2\<close>, returns its error, and makes neither the call for \<open>v3\<close> nor the
  \<open>DeletePolicy\<close> call.
\<close>

theorem deletePolicy_stops_at_failed_version:
  "deletePolicy
     (canned_svc (None, None) None (Some (ListPolicyVersionsOutput sample_versions), None)
        (Some (AwsError ''DeleteConflict'' ''in use'')) None)
     sample_arn world0
   = (Return (None, Some (AwsError ''DeleteConflict'' ''in use'')),
      \<lparr>calls = [Call_ListPolicyVersions (ListPolicyVersionsInput (Some ''arn:aws:iam::42:policy/p'')),
                Call_DeletePolicyVersion
                  (DeletePolicyVersionInput (Some ''arn:aws:iam::42:policy/p'') (Some ''v2''))],
       remote = 2\<rparr>)"
  by (simp add: deletePolicy_def canned_list canned_delete_version world0_def sample_versions_def
        BoolValue_def sample_str)

text \<open>
  C2, amended. The SDK calls of \<open>deletePolicy\<close> are exactly \<open>delete_calls\<close>: first
  \<open>ListPolicyVersions\<close>; if the listing fails, nothing more; otherwise one
  \<open>DeletePolicyVersion\<close> for each listed version whose \<open>IsDefaultVersion\<close> does not read
  as true (never for a default version, \<open>version_calls_only_non_default\<close>), in listing
  order, up to and including the first such call that fails. When every one of these
  calls succeeds (and no entry of the listing is \<open>nil\<close>), all of them are made and
  \<open>DeletePolicy\<close> follows as the last call; and \<open>DeletePolicy\<close> is among the calls
  only in that case, after all of them.
\<close>

theorem deletePolicy_call_sequence:
  "calls (snd (deletePolicy svc a w)) = calls w @ delete_calls svc a (remote w)
   \<and> (ListPolicyVersions svc (ListPolicyVersionsInput (Some (ARN_String a))) (remote w)
         = ((Some (ListPolicyVersionsOutput vs), None), st)
       \<and> None \<notin> set vs
       \<and> (\<forall>e \<in> set (answers svc (version_requests a vs) st). e = None)
      \<longrightarrow> calls (snd (deletePolicy svc a w)) =
            calls w @ Call_ListPolicyVersions (ListPolicyVersionsInput (Some (ARN_String a))) #
              version_calls a vs @ [Call_DeletePolicy (DeletePolicyInput (Some (ARN_String a)))])
   \<and> (Call_DeletePolicy d \<in> set (delete_calls svc a (remote w))
      \<longrightarrow> (\<exists>vs' st'.
             ListPolicyVersions svc (ListPolicyVersionsInput (Some (ARN_String a))) (remote w)
               = ((Some (ListPolicyVersionsOutput vs'), None), st')
           \<and> None \<notin> set vs'
           \<and> (\<forall>e \<in> set (answers svc (version_requests a vs') st'). e = None)
           \<and> delete_calls svc a (remote w) =
               Call_ListPolicyVersions (ListPolicyVersionsInput (Some (ARN_String a))) #
                 version_calls a vs' @
                 [Call_DeletePolicy (DeletePolicyInput (Some (ARN_String a)))]))"
proof (intro conjI impI)
  show "calls (snd (deletePolicy svc a w)) = calls w @ delete_calls svc a (remote w)"
    by (rule deletePolicy_calls_exact)
  show "calls (snd (deletePolicy svc a w)) =
            calls w @ Call_ListPolicyVersions (ListPolicyVersionsInput (Some (ARN_String a))) #
              version_calls a vs @ [Call_DeletePolicy (DeletePolicyInput (Some (ARN_String a)))]"
    if "ListPolicyVersions svc (ListPolicyVersionsInput (Some (ARN_String a))) (remote w)
         = ((Some (ListPolicyVersionsOutput vs), None), st)
       \<and> None \<notin> set vs
       \<and> (\<forall>e \<in> set (answers svc (version_requests a vs) st). e = None)"
    using that delete_calls_complete[of svc a "remote w" vs st]
    by (simp add: deletePolicy_calls_exact)
  show "\<exists>vs' st'.
             ListPolicyVersions svc (ListPolicyVersionsInput (Some (ARN_String a))) (remote w)
               = ((Some (ListPolicyVersionsOutput vs'), None), st')
           \<and> None \<notin> set vs'
           \<and> (\<forall>e \<in> set (answers svc (version_requests a vs') st'). e = None)
           \<and> delete_calls svc a (remote w) =
               Call_ListPolicyVersions (ListPolicyVersionsInput (Some (ARN_String a))) #
                 version_calls a vs' @
                 [Call_DeletePolicy (DeletePolicyInput (Some (ARN_String a)))]"
    if "Call_DeletePolicy d \<in> set (delete_calls svc a (remote w))"
    using that by (rule delete_calls_DeletePolicy_only_after_all)
qed

theorem deletePolicy_call_sequence_witness:
  "ListPolicyVersions
      (canned_svc (None, None) None (Some (ListPolicyVersionsOutput sample_versions), None)
         None None)
      (ListPolicyVersionsInput (Some (ARN_String sample_arn))) (remote world0)
     = ((Some (ListPolicyVersionsOutput sample_versions), None), 1)
   \<and> None \<notin> set sample_versions
   \<and> answers
        (canned_svc (None, None) None (Some (ListPolicyVersionsOutput sample_versions), None)
           None None)
        (version_requests sample_arn sample_versions) 1 = [None, None]
   \<and> calls (snd (deletePolicy
                   (canned_svc (None, None) None
                      (Some (ListPolicyVersionsOutput sample_versions), None) None None)
                   sample_arn world0)) =
       [Call_ListPolicyVersions (ListPolicyVersionsInput (Some ''arn:aws:iam::42:policy/p'')),
        Call_DeletePolicyVersion
          (DeletePolicyVersionInput (Some ''arn:aws:iam::42:policy/p'') (Some ''v2'')),
        Call_DeletePolicyVersion
          (DeletePolicyVersionInput (Some ''arn:aws:iam::42:policy/p'') (Some ''v3'')),
        Call_DeletePolicy (DeletePolicyInput (Some ''arn:aws:iam::42:policy/p''))]
   \<and> Call_DeletePolicy (DeletePolicyInput (Some ''arn:aws:iam::42:policy/p''))
        \<in> set (delete_calls
                 (canned_svc (None, None) None
                    (Some (ListPolicyVersionsOutput sample_versions), None) None None)
                 sample_arn (remote world0))"
proof -
  let ?svc = "canned_svc (None, None) None (Some (ListPolicyVersionsOutput sample_versions), None)
                None None"
  let ?li = "ListPolicyVersionsInput (Some (ARN_String sample_arn))"
  let ?d = "DeletePolicyInput (Some ''arn:aws:iam::42:policy/p'')"
  note t = deletePolicy_call_sequence[of ?svc sample_arn world0 sample_versions 1 ?d]
  have L: "ListPolicyVersions ?svc ?li (remote world0)
             = ((Some (ListPolicyVersionsOutput sample_versions), None), 1)"
    by (simp add: canned_raw world0_def)
  have A: "answers ?svc (version_requests sample_arn sample_versions) 1 = [None, None]"
    unfolding canned_answers sample_requests by simp
  then have A': "\<forall>e \<in> set (answers ?svc (version_requests sample_arn sample_versions) 1). e = None"
    by simp
  from t[THEN conjunct2, THEN conjunct1, THEN mp, OF conjI[OF L conjI[OF sample_versions_no_nil A']]]
  have C: "calls (snd (deletePolicy ?svc sample_arn world0)) =
       [Call_ListPolicyVersions (ListPolicyVersionsInput (Some ''arn:aws:iam::42:policy/p'')),
        Call_DeletePolicyVersion
          (DeletePolicyVersionInput (Some ''arn:aws:iam::42:policy/p'') (Some ''v2'')),
        Call_DeletePolicyVersion
          (DeletePolicyVersionInput (Some ''arn:aws:iam::42:policy/p'') (Some ''v3'')),
        Call_DeletePolicy ?d]"
    by (simp add: world0_def sample_version_calls sample_str)
  from t[THEN conjunct1] C
  have M: "Call_DeletePolicy ?d \<in> set (delete_calls ?svc sample_arn (remote world0))"
    by (simp add: world0_def)
  note t[THEN conjunct2, THEN conjunct2, THEN mp, OF M]
  from L sample_versions_no_nil A C M show ?thesis by (intro conjI)
qed

text \<open>
  C9. Once \<open>deletePolicy\<close> has reached its \<open>DeletePolicy\<close> call (the listing succeeded
  and the loop ran to its end) and that call returns the error \<open>e\<close>: if \<open>e\<close> does not
  implement \<open>awserr.Error\<close>, the unchecked assertion panics and nothing is returned; if
  it does, \<open>deletePolicy\<close> returns.
\<close>

theorem unchecked_assertion_panics:
  assumes "svc_ListPolicyVersions svc (ListPolicyVersionsInput (Some (ARN_String a))) w
             = ((Some (ListPolicyVersionsOutput vs), None), w1)"
    and "deleteVersions svc a vs w1 = (Return None, w2)"
    and "svc_DeletePolicy svc (DeletePolicyInput (Some (ARN_String a))) w2 = ((res, Some e), w3)"
  shows "(awserr_Code e = None \<longrightarrow> deletePolicy svc a w = (Panic InterfaceConversion, w3))
       \<and> (awserr_Code e \<noteq> None \<longrightarrow> (\<exists>r. deletePolicy svc a w = (Return r, w3)))"
  using deletePolicy_reach[OF assms] by (auto split: option.splits)

theorem unchecked_assertion_panics_witness:
  "svc_ListPolicyVersions
      (canned_svc (None, None) None (Some (ListPolicyVersionsOutput []), None) None
         (Some (PlainError ''boom'')))
      (ListPolicyVersionsInput (Some (ARN_String sample_arn))) world0
     = ((Some (ListPolicyVersionsOutput []), None),
        \<lparr>calls = [Call_ListPolicyVersions (ListPolicyVersionsInput (Some (ARN_String sample_arn)))],
         remote = 1\<rparr>)
   \<and> awserr_Code (PlainError ''boom'') = None
   \<and> fst (deletePolicy
            (canned_svc (None, None) None (Some (ListPolicyVersionsOutput []), None) None
               (Some (PlainError ''boom'')))
            sample_arn world0) = Panic InterfaceConversion
   \<and> awserr_Code (AwsError ''AccessDenied'' ''no'') \<noteq> None
   \<and> (\<exists>r. fst (deletePolicy
            (canned_svc (None, None) None (Some (ListPolicyVersionsOutput []), None) None
               (Some (AwsError ''AccessDenied'' ''no'')))
            sample_arn world0) = Return r)"
proof -
  let ?l = "ListPolicyVersionsInput (Some (ARN_String sample_arn))"
  let ?d = "DeletePolicyInput (Some (ARN_String sample_arn))"
  let ?w1 = "\<lparr>calls = [Call_ListPolicyVersions ?l], remote = 1\<rparr> :: nat world"
  let ?w3 = "\<lparr>calls = [Call_ListPolicyVersions ?l, Call_DeletePolicy ?d], remote = 2\<rparr> :: nat world"
  have L: "svc_ListPolicyVersions
             (canned_svc (None, None) None (Some (ListPolicyVersionsOutput []), None) None dp) ?l world0
           = ((Some (ListPolicyVersionsOutput []), None), ?w1)" for dp
    by (simp add: canned_list world0_def)
  have V: "deleteVersions
             (canned_svc (None, None) None (Some (ListPolicyVersionsOutput []), None) None dp)
             sample_arn [] ?w1 = (Return None, ?w1)" for dp
    by simp
  have D: "svc_DeletePolicy
             (canned_svc (None, None) None (Some (ListPolicyVersionsOutput []), None) None (Some e))
             ?d ?w1 = ((Some DeletePolicyOutput, Some e), ?w3)" for e
    by (simp add: canned_delete)
  from unchecked_assertion_panics[OF L V D, of "PlainError ''boom''"]
    unchecked_assertion_panics[OF L V D, of "AwsError ''AccessDenied'' ''no''"] L
  show ?thesis by auto
qed

text \<open>
  C4, as stated, fails: a "no such entity" error is ignored only at the \<open>DeletePolicy\<close>
  call. The same error from \<open>ListPolicyVersions\<close> or from \<open>DeletePolicyVersion\<close> is
  returned to the caller, as these two runs show.
\<close>

theorem no_such_entity_from_listing_is_returned:
  "deletePolicy
     (canned_svc (None, None) None (None, Some (AwsError ErrCodeNoSuchEntityException ''gone''))
        None None)
     sample_arn world0
   = (Return (None, Some (AwsError ErrCodeNoSuchEntityException ''gone'')),
      \<lparr>calls = [Call_ListPolicyVersions (ListPolicyVersionsInput (Some (ARN_String sample_arn)))],
       remote = 1\<rparr>)
   \<and> deletePolicy
     (canned_svc (None, None) None (Some (ListPolicyVersionsOutput sample_versions), None)
        (Some (AwsError ErrCodeNoSuchEntityException ''gone'')) None)
     sample_arn world0
   = (Return (None, Some (AwsError ErrCodeNoSuchEntityException ''gone'')),
      \<lparr>calls = [Call_ListPolicyVersions (ListPolicyVersionsInput (Some (ARN_String sample_arn))),
                Call_DeletePolicyVersion
                  (DeletePolicyVersionInput (Some (ARN_String sample_arn)) (Some ''v2''))],
       remote = 2\<rparr>)"
  by (simp add: deletePolicy_def canned_list canned_delete_version world0_def sample_versions_def
        BoolValue_def)

text \<open>
  C4, amended. When the final \<open>DeletePolicy\<close> call fails with an \<open>awserr.Error\<close> whose
  code is \<open>ErrCodeNoSuchEntityException\<close>, \<open>deletePolicy\<close> returns a \<open>nil\<close> error,
  together with the output the SDK gave.
\<close>

theorem no_such_entity_ignored_on_DeletePolicy:
  assumes "svc_ListPolicyVersions svc (ListPolicyVersionsInput (Some (ARN_String a))) w
             = ((Some (ListPolicyVersionsOutput vs), None), w1)"
    and "deleteVersions svc a vs w1 = (Return None, w2)"
    and "svc_DeletePolicy svc (DeletePolicyInput (Some (ARN_String a))) w2 = ((res, Some e), w3)"
    and "awserr_Code e = Some ErrCodeNoSuchEntityException"
  shows "deletePolicy svc a w = (Return (res, None), w3)"
  using deletePolicy_reach[OF assms(1-3)] assms(4) by simp

theorem no_such_entity_ignored_on_DeletePolicy_witness:
  "awserr_Code (AwsError ''NoSuchEntity'' ''gone'') = Some ErrCodeNoSuchEntityException
   \<and> deletePolicy
       (canned_svc (None, None) None (Some (ListPolicyVersionsOutput []), None) None
          (Some (AwsError ''NoSuchEntity'' ''gone'')))
       sample_arn world0
     = (Return (Some DeletePolicyOutput, None),
        \<lparr>calls = [Call_ListPolicyVersions (ListPolicyVersionsInput (Some (ARN_String sample_arn))),
                  Call_DeletePolicy (DeletePolicyInput (Some (ARN_String sample_arn)))],
         remote = 2\<rparr>)"
proof -
  let ?svc = "canned_svc (None, None) None (Some (ListPolicyVersionsOutput []), None) None
                (Some (AwsError ''NoSuchEntity'' ''gone''))"
  let ?l = "ListPolicyVersionsInput (Some (ARN_String sample_arn))"
  let ?d = "DeletePolicyInput (Some (ARN_String sample_arn))"
  let ?w1 = "\<lparr>calls = [Call_ListPolicyVersions ?l], remote = 1\<rparr> :: nat world"
  let ?w3 = "\<lparr>calls = [Call_ListPolicyVersions ?l, Call_DeletePolicy ?d], remote = 2\<rparr> :: nat world"
  have L: "svc_ListPolicyVersions ?svc ?l world0 = ((Some (ListPolicyVersionsOutput []), None), ?w1)"
    by (simp add: canned_list world0_def)
  have V: "deleteVersions ?svc sample_arn [] ?w1 = (Return None, ?w1)"
    by simp
  have D: "svc_DeletePolicy ?svc ?d ?w1
             = ((Some DeletePolicyOutput, Some (AwsError ''NoSuchEntity'' ''gone'')), ?w3)"
    by (simp add: canned_delete)
  have C: "awserr_Code (AwsError ''NoSuchEntity'' ''gone'') = Some ErrCodeNoSuchEntityException"
    by (simp add: ErrCodeNoSuchEntityException_def)
  from no_such_entity_ignored_on_DeletePolicy[OF L V D C] C show ?thesis by simp
qed

subsection \<open>Errors of the SDK on their way out\<close>

lemma createPolicy_sdk_error:
  assumes "marshal pd = Inr b"
    and "svc_CreatePolicy svc (CreatePolicyInput (Some b) (Some polDesc) (Some polName)) w
           = ((out, Some e), w')"
  shows "createPolicy marshal svc polName polDesc pd w = (Return (None, Some e), w')"
  using assms by (simp add: createPolicy_def)

lemma updatePolicy_sdk_error:
  assumes "marshal pd = Inr b"
    and "svc_CreatePolicyVersion svc
           (CreatePolicyVersionInput (Some b) (Some (ARN_String a)) (Some True)) w
           = ((out, Some e), w')"
  shows "updatePolicy marshal svc a pd w = (Return (None, Some e), w')"
  using assms by (simp add: updatePolicy_def)

lemma getPolicy_sdk_error:
  assumes "svc_GetPolicy svc (GetPolicyInput (Some (ARN_String a))) w = ((out, Some e), w')"
  shows "getPolicy svc a w = (Return (None, Some e), w')"
  using assms by (simp add: getPolicy_def)

lemma getPolicyVersion_sdk_error:
  assumes "svc_GetPolicyVersion svc (GetPolicyVersionInput (Arn pol) (DefaultVersionId pol)) w
             = ((out, Some e), w')"
  shows "getPolicyVersion svc (GetPolicyOutput (Some pol)) w = (Return (None, Some e), w')"
  using assms by (simp add: getPolicyVersion_def)

text \<open>
  C6. The wrappers hand an SDK error back as it is (the lemmas above, with
  \<open>deletePolicy_list_error\<close>, \<open>deleteVersions_error_is_sdk_error\<close> and
  \<open>deletePolicy_delete_error\<close>), except on one path: an error of \<open>DeletePolicy\<close> that
  is not an \<open>awserr.Error\<close> never reaches the caller, because the assertion in front
  of \<open>return nil, err\<close> panics. The run below lists three versions, deletes the two
  that are not the default, and then panics on the error of \<open>DeletePolicy\<close>.
\<close>

theorem deletePolicy_panics_on_plain_error:
  "deletePolicy
     (canned_svc (None, None) None (Some (ListPolicyVersionsOutput sample_versions), None) None
        (Some (PlainError ''connection reset'')))
     sample_arn world0
   = (Panic InterfaceConversion,
      \<lparr>calls = [Call_ListPolicyVersions (ListPolicyVersionsInput (Some (ARN_String sample_arn))),
                Call_DeletePolicyVersion
                  (DeletePolicyVersionInput (Some (ARN_String sample_arn)) (Some ''v2'')),
                Call_DeletePolicyVersion
                  (DeletePolicyVersionInput (Some (ARN_String sample_arn)) (Some ''v3'')),
                Call_DeletePolicy (DeletePolicyInput (Some (ARN_String sample_arn)))],
       remote = 4\<rparr>)"
  by (simp add: deletePolicy_def canned_list canned_delete_version canned_delete world0_def
        sample_versions_def BoolValue_def)

subsection \<open>The guard of \<open>Update\<close> and \<open>Delete\<close>\<close>

lemma Update_not_created:
  "arn p = ARN_zero \<Longrightarrow>
     Update marshal svc p w =
       (Return (Some (InstanceNotYetCreatedError (not_yet_created (Name p)))), p, w)"
  by (simp add: Update_def IsCreated_eq NewInstanceNotYetCreatedError_def)

lemma Delete_not_created:
  "arn p = ARN_zero \<Longrightarrow>
     Delete svc p w =
       (Return (Some (InstanceNotYetCreatedError (not_yet_created (Name p)))), p, w)"
  by (simp add: Delete_def IsCreated_eq NewInstanceNotYetCreatedError_def)

lemma Update_created:
  "arn p \<noteq> ARN_zero \<Longrightarrow>
     Update marshal svc p w =
       (case updatePolicy marshal svc (arn p) (PolicyDocument p) w of
          (Panic x, w2) \<Rightarrow> (Panic x, p, w2)
        | (Return (out, err), w2) \<Rightarrow> (Return err, p, w2))"
  by (auto simp: Update_def IsCreated_eq split: prod.splits outcome.splits)

lemma Delete_created:
  "arn p \<noteq> ARN_zero \<Longrightarrow>
     Delete svc p w =
       (case deletePolicy svc (arn p) w of
          (Panic x, w2) \<Rightarrow> (Panic x, p, w2)
        | (Return (out, err), w2) \<Rightarrow> (Return err, p, w2))"
  by (auto simp: Delete_def IsCreated_eq split: prod.splits outcome.splits)

lemma Update_keeps_instance: "fst (snd (Update marshal svc p w)) = p"
  by (cases "arn p = ARN_zero")
     (auto simp: Update_not_created Update_created split: prod.splits outcome.splits)

lemma Delete_keeps_instance: "fst (snd (Delete svc p w)) = p"
  by (cases "arn p = ARN_zero")
     (auto simp: Delete_not_created Delete_created split: prod.splits outcome.splits)

lemma Update_created_marshal_ok:
  assumes "arn p \<noteq> ARN_zero" and "marshal (PolicyDocument p) = Inr b"
  shows "Update marshal svc p w =
     (Return (snd (fst (CreatePolicyVersion svc
                (CreatePolicyVersionInput (Some b) (Some (ARN_String (arn p))) (Some True))
                (remote w)))),
      p,
      \<lparr>calls = calls w @ [Call_CreatePolicyVersion
                 (CreatePolicyVersionInput (Some b) (Some (ARN_String (arn p))) (Some True))],
       remote = snd (CreatePolicyVersion svc
                 (CreatePolicyVersionInput (Some b) (Some (ARN_String (arn p))) (Some True))
                 (remote w))\<rparr>)"
  using assms
  by (simp add: Update_created updatePolicy_marshal_ok split: prod.splits)

lemma guard_fires:
  assumes "arn p = ARN_zero"
  shows "Update marshal svc p w =
        (Return (Some (InstanceNotYetCreatedError
                  (''Policy '' @ [CHR 0x27] @ Name p @ [CHR 0x27] @ '' not yet created''))), p, w)
    \<and> Delete svc p w =
        (Return (Some (InstanceNotYetCreatedError
                  (''Policy '' @ [CHR 0x27] @ Name p @ [CHR 0x27] @ '' not yet created''))), p, w)"
  using Update_not_created[OF assms, of marshal svc w] Delete_not_created[OF assms, of svc w]
  by (simp add: not_yet_created_def)

lemma guard_passes:
  assumes "arn p \<noteq> ARN_zero"
  shows "Update marshal svc p w =
        (case updatePolicy marshal svc (arn p) (PolicyDocument p) w of
           (Panic x, w2) \<Rightarrow> (Panic x, p, w2)
         | (Return (out, err), w2) \<Rightarrow> (Return err, p, w2))
    \<and> Delete svc p w =
        (case deletePolicy svc (arn p) w of
           (Panic x, w2) \<Rightarrow> (Panic x, p, w2)
         | (Return (out, err), w2) \<Rightarrow> (Return err, p, w2))
    \<and> (\<forall>b. marshal (PolicyDocument p) = Inr b \<longrightarrow>
          calls (snd (snd (Update marshal svc p w))) =
            calls w @ [Call_CreatePolicyVersion
                         (CreatePolicyVersionInput (Some b) (Some (ARN_String (arn p))) (Some True))])
    \<and> (\<exists>rest. calls (snd (snd (Delete svc p w))) =
            calls w @ Call_ListPolicyVersions
                        (ListPolicyVersionsInput (Some (ARN_String (arn p)))) # rest)"
proof (intro conjI allI impI)
  show "Update marshal svc p w =
        (case updatePolicy marshal svc (arn p) (PolicyDocument p) w of
           (Panic x, w2) \<Rightarrow> (Panic x, p, w2)
         | (Return (out, err), w2) \<Rightarrow> (Return err, p, w2))"
    by (rule Update_created[OF assms])
  show "Delete svc p w =
        (case deletePolicy svc (arn p) w of
           (Panic x, w2) \<Rightarrow> (Panic x, p, w2)
         | (Return (out, err), w2) \<Rightarrow> (Return err, p, w2))"
    by (rule Delete_created[OF assms])
  show "calls (snd (snd (Update marshal svc p w))) =
            calls w @ [Call_CreatePolicyVersion
                         (CreatePolicyVersionInput (Some b) (Some (ARN_String (arn p))) (Some True))]"
    if "marshal (PolicyDocument p) = Inr b" for b
    using Update_created_marshal_ok[of p marshal b svc w] assms that by simp
  show "\<exists>rest. calls (snd (snd (Delete svc p w))) =
            calls w @ Call_ListPolicyVersions
                        (ListPolicyVersionsInput (Some (ARN_String (arn p)))) # rest"
    using deletePolicy_first_call[of svc "arn p" w]
    by (auto simp: Delete_created[OF assms] split: prod.splits outcome.splits)
qed

lemma Delete_calls_exact:
  assumes "arn p \<noteq> ARN_zero"
  shows "calls (snd (snd (Delete svc p w))) = calls w @ delete_calls svc (arn p) (remote w)"
  using deletePolicy_calls_exact[of svc "arn p" w]
  by (auto simp: Delete_created[OF assms] split: prod.splits outcome.splits)

lemma Update_created_marshal_fail:
  assumes "arn p \<noteq> ARN_zero" and "marshal (PolicyDocument p) = Inl e"
  shows "Update marshal svc p w = (Return (Some e), p, w)"
  using assms by (simp add: Update_created updatePolicy_marshal_fail)

text \<open>
  C3, as stated, fails in its second half. On an instance with a non-zero ARN the
  guard does not fire, yet \<open>Update\<close> makes no SDK call when the document cannot be
  marshalled, and \<open>Delete\<close> never gets to \<open>DeletePolicy\<close> when the listing of the
  versions fails: it returns that error after the one \<open>ListPolicyVersions\<close> call.
\<close>

theorem created_instance_without_sdk_operation:
  "Update (\<lambda>d. Inl (PlainError ''json: unsupported value''))
      (canned_svc (None, None) None (None, Some (AwsError ''ServiceFailure'' ''try later''))
         None None)
      (NewExistingPolicyInstance ''n'' ''d'' ''doc'' sample_arn) world0
    = (Return (Some (PlainError ''json: unsupported value'')),
       NewExistingPolicyInstance ''n'' ''d'' ''doc'' sample_arn, world0)
   \<and> Delete
      (canned_svc (None, None) None (None, Some (AwsError ''ServiceFailure'' ''try later''))
         None None)
      (NewExistingPolicyInstance ''n'' ''d'' ''doc'' sample_arn) world0
    = (Return (Some (AwsError ''ServiceFailure'' ''try later'')),
       NewExistingPolicyInstance ''n'' ''d'' ''doc'' sample_arn,
       \<lparr>calls = [Call_ListPolicyVersions
                   (ListPolicyVersionsInput (Some ''arn:aws:iam::42:policy/p''))],
        remote = 1\<rparr>)
   \<and> arn (NewExistingPolicyInstance ''n'' ''d'' ''doc'' sample_arn :: string PolicyInstance)
        \<noteq> ARN_zero
   \<and> calls world0 = []"
proof -
  let ?p = "NewExistingPolicyInstance ''n'' ''d'' ''doc'' sample_arn :: string PolicyInstance"
  have c: "arn ?p \<noteq> ARN_zero" by (simp add: NewExistingPolicyInstance_def sample_nonzero)
  have a: "arn ?p = sample_arn" by (simp add: NewExistingPolicyInstance_def)
  have 1: "Update (\<lambda>d. Inl (PlainError ''json: unsupported value''))
      (canned_svc (None, None) None (None, Some (AwsError ''ServiceFailure'' ''try later''))
         None None) ?p world0
    = (Return (Some (PlainError ''json: unsupported value'')), ?p, world0)"
    by (simp add: Update_created[OF c] updatePolicy_def)
  have 2: "Delete
      (canned_svc (None, None) None (None, Some (AwsError ''ServiceFailure'' ''try later''))
         None None) ?p world0
    = (Return (Some (AwsError ''ServiceFailure'' ''try later'')), ?p,
       \<lparr>calls = [Call_ListPolicyVersions
                   (ListPolicyVersionsInput (Some ''arn:aws:iam::42:policy/p''))],
        remote = 1\<rparr>)"
    by (simp add: Delete_created[OF c] a deletePolicy_def canned_list world0_def sample_str)
  from 1 2 c show ?thesis by (simp add: world0_def)
qed

text \<open>
  C3, amended. With the zero-value ARN stored, \<open>Update\<close> and \<open>Delete\<close> return the
  \<open>InstanceNotYetCreatedError\<close> whose message quotes the policy's \<open>Name\<close>, and leave
  the world as it was: no SDK call. With any other ARN stored the guard does not
  fire. \<open>Update\<close> then marshals the document: on success it makes exactly the
  \<open>CreatePolicyVersion\<close> call and returns that call's error; on a marshalling error it
  returns that error without a call. \<open>Delete\<close> then makes exactly the calls
  \<open>delete_calls\<close>: \<open>ListPolicyVersions\<close>, the version deletions, and, when the listing
  and every version deletion succeeded, \<open>DeletePolicy\<close> as the last call.
\<close>

theorem not_yet_created_guard:
  "(arn p = ARN_zero \<longrightarrow>
      Update marshal svc p w =
        (Return (Some (InstanceNotYetCreatedError
                  (''Policy '' @ [CHR 0x27] @ Name p @ [CHR 0x27] @ '' not yet created''))), p, w)
    \<and> Delete svc p w =
        (Return (Some (InstanceNotYetCreatedError
                  (''Policy '' @ [CHR 0x27] @ Name p @ [CHR 0x27] @ '' not yet created''))), p, w))
   \<and> (arn p \<noteq> ARN_zero \<longrightarrow>
      (marshal (PolicyDocument p) = Inr b \<longrightarrow>
         Update marshal svc p w =
           (Return (snd (fst (CreatePolicyVersion svc
                      (CreatePolicyVersionInput (Some b) (Some (ARN_String (arn p))) (Some True))
                      (remote w)))),
            p,
            \<lparr>calls = calls w @ [Call_CreatePolicyVersion
                 (CreatePolicyVersionInput (Some b) (Some (ARN_String (arn p))) (Some True))],
             remote = snd (CreatePolicyVersion svc
                 (CreatePolicyVersionInput (Some b) (Some (ARN_String (arn p))) (Some True))
                 (remote w))\<rparr>))
    \<and> (marshal (PolicyDocument p) = Inl e \<longrightarrow>
         Update marshal svc p w = (Return (Some e), p, w))
    \<and> calls (snd (snd (Delete svc p w))) = calls w @ delete_calls svc (arn p) (remote w)
    \<and> (ListPolicyVersions svc (ListPolicyVersionsInput (Some (ARN_String (arn p)))) (remote w)
          = ((Some (ListPolicyVersionsOutput vs), None), st)
        \<and> None \<notin> set vs
        \<and> (\<forall>x \<in> set (answers svc (version_requests (arn p) vs) st). x = None)
       \<longrightarrow> calls (snd (snd (Delete svc p w))) =
             calls w @ Call_ListPolicyVersions
                         (ListPolicyVersionsInput (Some (ARN_String (arn p)))) #
               version_calls (arn p) vs @
               [Call_DeletePolicy (DeletePolicyInput (Some (ARN_String (arn p))))]))"
proof (intro conjI impI)
  show "Update marshal svc p w =
        (Return (Some (InstanceNotYetCreatedError
                  (''Policy '' @ [CHR 0x27] @ Name p @ [CHR 0x27] @ '' not yet created''))), p, w)"
    if "arn p = ARN_zero"
    using guard_fires[OF that, of marshal svc w] by simp
  show "Delete svc p w =
        (Return (Some (InstanceNotYetCreatedError
                  (''Policy '' @ [CHR 0x27] @ Name p @ [CHR 0x27] @ '' not yet created''))), p, w)"
    if "arn p = ARN_zero"
    using guard_fires[OF that, of marshal svc w] by simp
  show "Update marshal svc p w =
           (Return (snd (fst (CreatePolicyVersion svc
                      (CreatePolicyVersionInput (Some b) (Some (ARN_String (arn p))) (Some True))
                      (remote w)))),
            p,
            \<lparr>calls = calls w @ [Call_CreatePolicyVersion
                 (CreatePolicyVersionInput (Some b) (Some (ARN_String (arn p))) (Some True))],
             remote = snd (CreatePolicyVersion svc
                 (CreatePolicyVersionInput (Some b) (Some (ARN_String (arn p))) (Some True))
                 (remote w))\<rparr>)"
    if "arn p \<noteq> ARN_zero" and "marshal (PolicyDocument p) = Inr b"
    using that by (rule Update_created_marshal_ok)
  show "Update marshal svc p w = (Return (Some e), p, w)"
    if "arn p \<noteq> ARN_zero" and "marshal (PolicyDocument p) = Inl e"
    using that by (rule Update_created_marshal_fail)
  show "calls (snd (snd (Delete svc p w))) = calls w @ delete_calls svc (arn p) (remote w)"
    if "arn p \<noteq> ARN_zero"
    using that by (rule Delete_calls_exact)
  show "calls (snd (snd (Delete svc p w))) =
             calls w @ Call_ListPolicyVersions
                         (ListPolicyVersionsInput (Some (ARN_String (arn p)))) #
               version_calls (arn p) vs @
               [Call_DeletePolicy (DeletePolicyInput (Some (ARN_String (arn p))))]"
    if "arn p \<noteq> ARN_zero"
      and "ListPolicyVersions svc (ListPolicyVersionsInput (Some (ARN_String (arn p)))) (remote w)
          = ((Some (ListPolicyVersionsOutput vs), None), st)
        \<and> None \<notin> set vs
        \<and> (\<forall>x \<in> set (answers svc (version_requests (arn p) vs) st). x = None)"
    using that delete_calls_complete[of svc "arn p" "remote w" vs st]
    by (simp add: Delete_calls_exact)
qed

theorem not_yet_created_guard_witness:
  "arn (NewPolicyInstance ''n'' ''d'' ''doc'' :: string PolicyInstance) = ARN_zero
   \<and> Delete (canned_svc (None, None) None (Some (ListPolicyVersionsOutput sample_versions), None)
               None None)
        (NewPolicyInstance ''n'' ''d'' ''doc'' :: string PolicyInstance) world0
      = (Return (Some (InstanceNotYetCreatedError
                  (''Policy '' @ [CHR 0x27] @ ''n'' @ [CHR 0x27] @ '' not yet created''))),
         NewPolicyInstance ''n'' ''d'' ''doc'', world0)
   \<and> arn (NewExistingPolicyInstance ''n'' ''d'' ''doc'' sample_arn :: string PolicyInstance)
        \<noteq> ARN_zero
   \<and> Update Inr (canned_svc (None, None) None
                    (Some (ListPolicyVersionsOutput sample_versions), None) None None)
        (NewExistingPolicyInstance ''n'' ''d'' ''doc'' sample_arn) world0
      = (Return None, NewExistingPolicyInstance ''n'' ''d'' ''doc'' sample_arn,
         \<lparr>calls = [Call_CreatePolicyVersion
             (CreatePolicyVersionInput (Some ''doc'') (Some ''arn:aws:iam::42:policy/p'')
                (Some True))],
          remote = 1\<rparr>)
   \<and> Update (\<lambda>d. Inl (PlainError ''json: unsupported value''))
        (canned_svc (None, None) None
           (Some (ListPolicyVersionsOutput sample_versions), None) None None)
        (NewExistingPolicyInstance ''n'' ''d'' ''doc'' sample_arn) world0
      = (Return (Some (PlainError ''json: unsupported value'')),
         NewExistingPolicyInstance ''n'' ''d'' ''doc'' sample_arn, world0)
   \<and> calls (snd (snd (Delete
        (canned_svc (None, None) None
           (Some (ListPolicyVersionsOutput sample_versions), None) None None)
        (NewExistingPolicyInstance ''n'' ''d'' ''doc'' sample_arn :: string PolicyInstance)
        world0)))
      = [Call_ListPolicyVersions (ListPolicyVersionsInput (Some ''arn:aws:iam::42:policy/p'')),
         Call_DeletePolicyVersion
           (DeletePolicyVersionInput (Some ''arn:aws:iam::42:policy/p'') (Some ''v2'')),
         Call_DeletePolicyVersion
           (DeletePolicyVersionInput (Some ''arn:aws:iam::42:policy/p'') (Some ''v3'')),
         Call_DeletePolicy (DeletePolicyInput (Some ''arn:aws:iam::42:policy/p''))]"
proof -
  let ?svc = "canned_svc (None, None) None (Some (ListPolicyVersionsOutput sample_versions), None)
                None None"
  let ?p0 = "NewPolicyInstance ''n'' ''d'' ''doc'' :: string PolicyInstance"
  let ?p1 = "NewExistingPolicyInstance ''n'' ''d'' ''doc'' sample_arn :: string PolicyInstance"
  let ?fail = "\<lambda>d::string. Inl (PlainError ''json: unsupported value'') :: go_error + string"
  have z: "arn ?p0 = ARN_zero" by (simp add: NewPolicyInstance_def)
  have c: "arn ?p1 \<noteq> ARN_zero" by (simp add: NewExistingPolicyInstance_def sample_nonzero)
  have a: "arn ?p1 = sample_arn" by (simp add: NewExistingPolicyInstance_def)
  have m: "Inr (PolicyDocument ?p1) = (Inr ''doc'' :: go_error + string)"
    by (simp add: NewExistingPolicyInstance_def)
  have f: "?fail (PolicyDocument ?p1) = Inl (PlainError ''json: unsupported value'')" by simp
  have L: "ListPolicyVersions ?svc (ListPolicyVersionsInput (Some (ARN_String (arn ?p1))))
             (remote world0) = ((Some (ListPolicyVersionsOutput sample_versions), None), 1)"
    by (simp add: canned_raw world0_def)
  have A: "\<forall>x \<in> set (answers ?svc (version_requests (arn ?p1) sample_versions) 1). x = None"
    unfolding canned_answers by simp
  note g0 = not_yet_created_guard[of ?p0 Inr ?svc world0, THEN conjunct1, THEN mp, OF z]
  note g1 = not_yet_created_guard[of ?p1 Inr ?svc world0 "''doc''" _ sample_versions 1,
              THEN conjunct2, THEN mp, OF c]
  note g2 = not_yet_created_guard[of ?p1 ?fail ?svc world0 _ "PlainError ''json: unsupported value''",
              THEN conjunct2, THEN mp, OF c]
  from g0[THEN conjunct2]
  have 1: "Delete ?svc ?p0 world0
      = (Return (Some (InstanceNotYetCreatedError
                  (''Policy '' @ [CHR 0x27] @ ''n'' @ [CHR 0x27] @ '' not yet created''))),
         ?p0, world0)"
    by (simp add: NewPolicyInstance_def)
  from g1[THEN conjunct1, THEN mp, OF m]
  have 2: "Update Inr ?svc ?p1 world0
      = (Return None, ?p1,
         \<lparr>calls = [Call_CreatePolicyVersion
             (CreatePolicyVersionInput (Some ''doc'') (Some ''arn:aws:iam::42:policy/p'')
                (Some True))],
          remote = 1\<rparr>)"
    by (simp add: a canned_raw world0_def sample_str)
  from g2[THEN conjunct2, THEN conjunct1, THEN mp, OF f]
  have 3: "Update ?fail ?svc ?p1 world0
      = (Return (Some (PlainError ''json: unsupported value'')), ?p1, world0)" .
  from g1[THEN conjunct2, THEN conjunct2, THEN conjunct2, THEN mp,
          OF conjI[OF L conjI[OF sample_versions_no_nil A]]]
  have 4: "calls (snd (snd (Delete ?svc ?p1 world0)))
      = [Call_ListPolicyVersions (ListPolicyVersionsInput (Some ''arn:aws:iam::42:policy/p'')),
         Call_DeletePolicyVersion
           (DeletePolicyVersionInput (Some ''arn:aws:iam::42:policy/p'') (Some ''v2'')),
         Call_DeletePolicyVersion
           (DeletePolicyVersionInput (Some ''arn:aws:iam::42:policy/p'') (Some ''v3'')),
         Call_DeletePolicy (DeletePolicyInput (Some ''arn:aws:iam::42:policy/p''))]"
    by (simp add: a world0_def sample_version_calls sample_str)
  from z 1 c 2 3 4 show ?thesis by (intro conjI)
qed

subsection \<open>\<open>Create\<close> and the stored ARN\<close>

lemma Create_marshal_fail:
  "marshal (PolicyDocument p) = Inl e \<Longrightarrow> Create marshal svc p w = (Return (Some e), p, w)"
  by (simp add: Create_def createPolicy_marshal_fail)

lemma Create_marshal_ok:
  assumes "marshal (PolicyDocument p) = Inr b"
  shows "Create marshal svc p w =
     (case CreatePolicy svc (CreatePolicyInput (Some b) (Some (Description p)) (Some (Name p)))
             (remote w) of
        ((out, err), s') \<Rightarrow>
          (let w' = \<lparr>calls = calls w @ [Call_CreatePolicy
                      (CreatePolicyInput (Some b) (Some (Description p)) (Some (Name p)))],
                    remote = s'\<rparr>
           in (case err of
             Some e \<Rightarrow> (Return (Some e), p, w')
           | None \<Rightarrow>
               (case out of
                  None \<Rightarrow> (Panic NilDereference, p, w')
                | Some (CreatePolicyOutput None) \<Rightarrow> (Panic NilDereference, p, w')
                | Some (CreatePolicyOutput (Some pol)) \<Rightarrow>
                    (case Parse (StringValue (Arn pol)) of
                       Inl e \<Rightarrow> (Return (Some e), p, w')
                     | Inr newarn \<Rightarrow> (Return None, p\<lparr>arn := newarn\<rparr>, w'))))))"
  using assms
  by (auto simp: Create_def createPolicy_marshal_ok Let_def
        split: prod.splits option.splits CreatePolicyOutput.splits sum.splits)

lemma Delete_result:
  "arn p \<noteq> ARN_zero \<Longrightarrow>
     fst (Delete svc p w) =
       (case fst (deletePolicy svc (arn p) w) of
          Panic x \<Rightarrow> Panic x
        | Return (out, err) \<Rightarrow> Return err)"
  by (auto simp: Delete_created split: prod.splits outcome.splits)

lemma Create_calls:
  assumes "marshal (PolicyDocument p) = Inr b"
  shows "calls (snd (snd (Create marshal svc p w))) =
           calls w @ [Call_CreatePolicy
                        (CreatePolicyInput (Some b) (Some (Description p)) (Some (Name p)))]"
  unfolding Create_marshal_ok[of marshal p b svc w, OF assms]
  by (auto simp: Let_def split: prod.splits option.splits CreatePolicyOutput.splits sum.splits)

lemma Create_sdk_error:
  assumes "marshal (PolicyDocument p) = Inr b"
    and "snd (fst (CreatePolicy svc
                (CreatePolicyInput (Some b) (Some (Description p)) (Some (Name p)))
                (remote w))) = Some e"
  shows "fst (Create marshal svc p w) = Return (Some e)"
  using assms(2) unfolding Create_marshal_ok[of marshal p b svc w, OF assms(1)]
  by (auto simp: Let_def split: prod.splits)

lemma Create_sdk_success:
  assumes "marshal (PolicyDocument p) = Inr b"
    and "fst (CreatePolicy svc
                (CreatePolicyInput (Some b) (Some (Description p)) (Some (Name p)))
                (remote w)) = (Some (CreatePolicyOutput (Some pol)), None)"
  shows "fst (Create marshal svc p w) =
           (case Parse (StringValue (Arn pol)) of
              Inl e \<Rightarrow> Return (Some e)
            | Inr newarn \<Rightarrow> Return None)"
  using assms(2) unfolding Create_marshal_ok[of marshal p b svc w, OF assms(1)]
  by (auto simp: Let_def split: prod.splits sum.splits)

text \<open>
  C8. \<open>Create\<close>, \<open>Update\<close> and \<open>Delete\<close> never change \<open>Name\<close>, \<open>Description\<close> or
  \<open>PolicyDocument\<close>; \<open>Update\<close> and \<open>Delete\<close> leave the whole instance as it was.
  \<open>Create\<close> leaves \<open>arn\<close> as it was unless it returns \<open>nil\<close>, and when it returns
  \<open>nil\<close> the new \<open>arn\<close> is the parse of the ARN string in the output of the
  \<open>CreatePolicy\<close> call.
\<close>

theorem Create_sets_arn_only_on_success:
  assumes "Create marshal svc p w = (r, p', w')"
  shows "Name p' = Name p \<and> Description p' = Description p
     \<and> PolicyDocument p' = PolicyDocument p
     \<and> (r \<noteq> Return None \<longrightarrow> arn p' = arn p)
     \<and> (r = Return None \<longrightarrow>
          (\<exists>b pol. marshal (PolicyDocument p) = Inr b
             \<and> fst (CreatePolicy svc
                     (CreatePolicyInput (Some b) (Some (Description p)) (Some (Name p)))
                     (remote w)) = (Some (CreatePolicyOutput (Some pol)), None)
             \<and> Parse (StringValue (Arn pol)) = Inr (arn p')))
     \<and> fst (snd (Update marshal svc p w)) = p
     \<and> fst (snd (Delete svc p w)) = p"
proof (cases "marshal (PolicyDocument p)")
  case (Inl e)
  with assms show ?thesis
    by (auto simp: Create_marshal_fail Update_keeps_instance Delete_keeps_instance)
next
  case (Inr b)
  note eq = Create_marshal_ok[of marshal p b svc w, OF Inr]
  from assms[unfolded eq] show ?thesis
    by (auto simp: Inr Let_def Update_keeps_instance Delete_keeps_instance
          split: prod.splits option.splits CreatePolicyOutput.splits sum.splits)
qed

theorem Create_sets_arn_only_on_success_witness:
  "Create Inr (canned_svc (Some (CreatePolicyOutput (Some sample_policy)), None) None
                 (None, None) None None)
      (NewPolicyInstance ''n'' ''d'' ''doc'') world0
     = (Return None, NewExistingPolicyInstance ''n'' ''d'' ''doc'' sample_arn,
        \<lparr>calls = [Call_CreatePolicy (CreatePolicyInput (Some ''doc'') (Some ''d'') (Some ''n''))],
         remote = 1\<rparr>)
   \<and> Parse (StringValue (Arn sample_policy)) = Inr sample_arn
   \<and> Create Inr (canned_svc (None, Some (AwsError ''LimitExceeded'' ''too many'')) None
                 (None, None) None None)
      (NewPolicyInstance ''n'' ''d'' ''doc'') world0
     = (Return (Some (AwsError ''LimitExceeded'' ''too many'')),
        NewPolicyInstance ''n'' ''d'' ''doc'',
        \<lparr>calls = [Call_CreatePolicy (CreatePolicyInput (Some ''doc'') (Some ''d'') (Some ''n''))],
         remote = 1\<rparr>)
   \<and> arn (NewPolicyInstance ''n'' ''d'' ''doc'' :: string PolicyInstance) = ARN_zero"
proof -
  let ?p = "NewPolicyInstance ''n'' ''d'' ''doc'' :: string PolicyInstance"
  let ?w = "\<lparr>calls = [Call_CreatePolicy (CreatePolicyInput (Some ''doc'') (Some ''d'') (Some ''n''))],
         remote = 1\<rparr> :: nat world"
  have P: "Parse (StringValue (Arn sample_policy)) = Inr sample_arn"
    by (simp add: sample_policy_def StringValue_def Parse_sample)
  have A: "Create Inr (canned_svc (Some (CreatePolicyOutput (Some sample_policy)), None) None
                 (None, None) None None) ?p world0
     = (Return None, NewExistingPolicyInstance ''n'' ''d'' ''doc'' sample_arn, ?w)"
    by (simp add: Create_def createPolicy_def svc_CreatePolicy_def invoke_eq canned_svc_def
          world0_def P NewPolicyInstance_def NewExistingPolicyInstance_def)
  have B: "Create Inr (canned_svc (None, Some (AwsError ''LimitExceeded'' ''too many'')) None
                 (None, None) None None) ?p world0
     = (Return (Some (AwsError ''LimitExceeded'' ''too many'')), ?p, ?w)"
    by (simp add: Create_def createPolicy_def svc_CreatePolicy_def invoke_eq canned_svc_def
          world0_def NewPolicyInstance_def)
  from Create_sets_arn_only_on_success[OF A] Create_sets_arn_only_on_success[OF B] A B P
  show ?thesis by (simp add: NewPolicyInstance_def)
qed

subsection \<open>The methods and the SDK calls behind them\<close>

text \<open>
  C1, as stated, fails. \<open>Read\<close> calls nothing and does not return: it panics with
  "Implement me". \<open>Update\<close> on an instance that was never created returns the guard's
  error without any SDK call, and \<open>IsCreated\<close> has no SDK call to make. (The log of
  the world these runs start from is empty, and each of them ends in that world.)
\<close>

theorem methods_without_sdk_call:
  "Read (canned_svc (None, None) None (None, None) None None)
        (NewExistingPolicyInstance ''n'' ''d'' ''doc'' sample_arn) world0
      = (Panic (PanicValue ''Implement me''),
         NewExistingPolicyInstance ''n'' ''d'' ''doc'' sample_arn, world0)
   \<and> Update Inr (canned_svc (None, None) None (None, None) None None)
        (NewPolicyInstance ''n'' ''d'' ''doc'') world0
      = (Return (Some (InstanceNotYetCreatedError
                  (''Policy '' @ [CHR 0x27] @ ''n'' @ [CHR 0x27] @ '' not yet created''))),
         NewPolicyInstance ''n'' ''d'' ''doc'', world0)
   \<and> snd (snd (IsCreated (canned_svc (None, None) None (None, None) None None)
        (NewExistingPolicyInstance ''n'' ''d'' ''doc'' sample_arn :: string PolicyInstance)
        world0)) = world0
   \<and> calls world0 = []"
  by (simp add: Read_def Update_def IsCreated_def NewPolicyInstance_def world0_def
        NewInstanceNotYetCreatedError_def not_yet_created_def)

text \<open>
  C1, amended (\<open>Read\<close> is left out of it).
  \<^item> \<open>Create\<close>, once the document is marshalled, makes exactly the \<open>CreatePolicy\<close> call
    for it; it returns the SDK's error if there is one, and if the SDK answers with a
    policy, the outcome of parsing that policy's ARN.
  \<^item> \<open>Update\<close>, with a non-zero ARN stored and the document marshalled, makes exactly
    the \<open>CreatePolicyVersion\<close> call and returns that call's error (\<open>nil\<close> if none).
  \<^item> \<open>Delete\<close>, with a non-zero ARN stored, makes exactly the calls \<open>delete_calls\<close>.
    It returns the error of \<open>ListPolicyVersions\<close>, or of the first \<open>DeletePolicyVersion\<close>
    call that fails. When all of these succeed it invokes \<open>DeletePolicy\<close> after them
    and returns \<open>nil\<close> if that call succeeds; if it fails with an \<open>awserr.Error\<close>,
    \<open>Delete\<close> returns that error, or \<open>nil\<close> when the code is "no such entity".
  \<^item> With the zero-value ARN stored, \<open>Update\<close> and \<open>Delete\<close> leave the world as it
    was; \<open>IsCreated\<close> always does, and \<open>ARN()\<close> gives the stored field.
\<close>

theorem methods_and_their_sdk_calls:
  "(marshal (PolicyDocument p) = Inr b \<longrightarrow>
      calls (snd (snd (Create marshal svc p w))) =
        calls w @ [Call_CreatePolicy
                     (CreatePolicyInput (Some b) (Some (Description p)) (Some (Name p)))]
    \<and> (\<forall>e. snd (fst (CreatePolicy svc
                  (CreatePolicyInput (Some b) (Some (Description p)) (Some (Name p)))
                  (remote w))) = Some e \<longrightarrow>
           fst (Create marshal svc p w) = Return (Some e))
    \<and> (\<forall>pol. fst (CreatePolicy svc
                  (CreatePolicyInput (Some b) (Some (Description p)) (Some (Name p)))
                  (remote w)) = (Some (CreatePolicyOutput (Some pol)), None) \<longrightarrow>
           fst (Create marshal svc p w) =
             (case Parse (StringValue (Arn pol)) of
                Inl e \<Rightarrow> Return (Some e)
              | Inr newarn \<Rightarrow> Return None)))
   \<and> (arn p \<noteq> ARN_zero \<and> marshal (PolicyDocument p) = Inr b \<longrightarrow>
      calls (snd (snd (Update marshal svc p w))) =
        calls w @ [Call_CreatePolicyVersion
                     (CreatePolicyVersionInput (Some b) (Some (ARN_String (arn p))) (Some True))]
    \<and> fst (Update marshal svc p w) =
        Return (snd (fst (CreatePolicyVersion svc
                  (CreatePolicyVersionInput (Some b) (Some (ARN_String (arn p))) (Some True))
                  (remote w)))))
   \<and> (arn p \<noteq> ARN_zero \<longrightarrow>
      (\<exists>rest. calls (snd (snd (Delete svc p w))) =
         calls w @ Call_ListPolicyVersions
                     (ListPolicyVersionsInput (Some (ARN_String (arn p)))) # rest)
    \<and> fst (Delete svc p w) =
        (case fst (deletePolicy svc (arn p) w) of
           Panic x \<Rightarrow> Panic x
         | Return (out, err) \<Rightarrow> Return err)
    \<and> calls (snd (snd (Delete svc p w))) = calls w @ delete_calls svc (arn p) (remote w)
    \<and> (snd (fst (ListPolicyVersions svc
                  (ListPolicyVersionsInput (Some (ARN_String (arn p)))) (remote w))) = Some le
       \<longrightarrow> fst (Delete svc p w) = Return (Some le))
    \<and> (ListPolicyVersions svc (ListPolicyVersionsInput (Some (ARN_String (arn p)))) (remote w)
          = ((Some (ListPolicyVersionsOutput vs), None), st)
        \<and> leading_ok (answers svc (version_requests (arn p) (before_nil vs)) st)
            < length (version_requests (arn p) (before_nil vs))
       \<longrightarrow> fst (Delete svc p w) =
             Return (answers svc (version_requests (arn p) (before_nil vs)) st
                       ! leading_ok (answers svc (version_requests (arn p) (before_nil vs)) st)))
    \<and> (ListPolicyVersions svc (ListPolicyVersionsInput (Some (ARN_String (arn p)))) (remote w)
          = ((Some (ListPolicyVersionsOutput vs), None), st)
        \<and> None \<notin> set vs
        \<and> (\<forall>x \<in> set (answers svc (version_requests (arn p) vs) st). x = None)
       \<longrightarrow> calls (snd (snd (Delete svc p w))) =
             calls w @ Call_ListPolicyVersions
                         (ListPolicyVersionsInput (Some (ARN_String (arn p)))) #
               version_calls (arn p) vs @
               [Call_DeletePolicy (DeletePolicyInput (Some (ARN_String (arn p))))]
         \<and> (snd (fst (DeletePolicy svc (DeletePolicyInput (Some (ARN_String (arn p))))
                        (state_after svc (version_requests (arn p) vs) st))) = None
            \<longrightarrow> fst (Delete svc p w) = Return None)
         \<and> (snd (fst (DeletePolicy svc (DeletePolicyInput (Some (ARN_String (arn p))))
                        (state_after svc (version_requests (arn p) vs) st))) = Some de
              \<and> awserr_Code de = Some code
            \<longrightarrow> fst (Delete svc p w) =
                  Return (if code = ErrCodeNoSuchEntityException then None else Some de))))
   \<and> (arn p = ARN_zero \<longrightarrow>
      snd (snd (Update marshal svc p w)) = w \<and> snd (snd (Delete svc p w)) = w)
   \<and> snd (snd (IsCreated svc p w)) = w
   \<and> fst (PolicyInstance_ARN p) = arn p"
proof (intro conjI impI allI)
  fix e pol
  show "snd (snd (IsCreated svc p w)) = w" by (simp add: IsCreated_def)
  show "fst (PolicyInstance_ARN p) = arn p" by (simp add: PolicyInstance_ARN_def)
  show "snd (snd (Update marshal svc p w)) = w" if "arn p = ARN_zero"
    using that by (simp add: Update_not_created)
  show "snd (snd (Delete svc p w)) = w" if "arn p = ARN_zero"
    using that by (simp add: Delete_not_created)
  show "\<exists>rest. calls (snd (snd (Delete svc p w))) =
         calls w @ Call_ListPolicyVersions
                     (ListPolicyVersionsInput (Some (ARN_String (arn p)))) # rest"
    if "arn p \<noteq> ARN_zero"
    using guard_passes[OF that, of marshal svc w] by blast
  show "fst (Delete svc p w) =
        (case fst (deletePolicy svc (arn p) w) of
           Panic x \<Rightarrow> Panic x
         | Return (out, err) \<Rightarrow> Return err)"
    if "arn p \<noteq> ARN_zero"
    using that by (rule Delete_result)
  show "calls (snd (snd (Update marshal svc p w))) =
        calls w @ [Call_CreatePolicyVersion
                     (CreatePolicyVersionInput (Some b) (Some (ARN_String (arn p))) (Some True))]"
    if "arn p \<noteq> ARN_zero \<and> marshal (PolicyDocument p) = Inr b"
    using Update_created_marshal_ok[of p marshal b svc w] that by simp
  show "fst (Update marshal svc p w) =
        Return (snd (fst (CreatePolicyVersion svc
                  (CreatePolicyVersionInput (Some b) (Some (ARN_String (arn p))) (Some True))
                  (remote w))))"
    if "arn p \<noteq> ARN_zero \<and> marshal (PolicyDocument p) = Inr b"
    using Update_created_marshal_ok[of p marshal b svc w] that by simp
  show "calls (snd (snd (Create marshal svc p w))) =
        calls w @ [Call_CreatePolicy
                     (CreatePolicyInput (Some b) (Some (Description p)) (Some (Name p)))]"
    if "marshal (PolicyDocument p) = Inr b"
    using that by (rule Create_calls)
  show "fst (Create marshal svc p w) = Return (Some e)"
    if "marshal (PolicyDocument p) = Inr b"
      and "snd (fst (CreatePolicy svc
                  (CreatePolicyInput (Some b) (Some (Description p)) (Some (Name p)))
                  (remote w))) = Some e"
    using that by (rule Create_sdk_error)
  show "fst (Create marshal svc p w) =
             (case Parse (StringValue (Arn pol)) of
                Inl e \<Rightarrow> Return (Some e)
              | Inr newarn \<Rightarrow> Return None)"
    if "marshal (PolicyDocument p) = Inr b"
      and "fst (CreatePolicy svc
                  (CreatePolicyInput (Some b) (Some (Description p)) (Some (Name p)))
                  (remote w)) = (Some (CreatePolicyOutput (Some pol)), None)"
    using that by (rule Create_sdk_success)
  show "calls (snd (snd (Delete svc p w))) = calls w @ delete_calls svc (arn p) (remote w)"
    if "arn p \<noteq> ARN_zero"
    using that by (rule Delete_calls_exact)
  show "fst (Delete svc p w) = Return (Some le)"
    if "arn p \<noteq> ARN_zero"
      and "snd (fst (ListPolicyVersions svc
                  (ListPolicyVersionsInput (Some (ARN_String (arn p)))) (remote w))) = Some le"
    using deletePolicy_list_failed[OF that(2)] by (simp add: Delete_result[OF that(1)])
  show "fst (Delete svc p w) =
             Return (answers svc (version_requests (arn p) (before_nil vs)) st
                       ! leading_ok (answers svc (version_requests (arn p) (before_nil vs)) st))"
    if "arn p \<noteq> ARN_zero"
      and "ListPolicyVersions svc (ListPolicyVersionsInput (Some (ARN_String (arn p)))) (remote w)
          = ((Some (ListPolicyVersionsOutput vs), None), st)
        \<and> leading_ok (answers svc (version_requests (arn p) (before_nil vs)) st)
            < length (version_requests (arn p) (before_nil vs))"
    using deletePolicy_version_failed[of svc "arn p" w vs st] that(2)
    by (simp add: Delete_result[OF that(1)])
  show "calls (snd (snd (Delete svc p w))) =
             calls w @ Call_ListPolicyVersions
                         (ListPolicyVersionsInput (Some (ARN_String (arn p)))) #
               version_calls (arn p) vs @
               [Call_DeletePolicy (DeletePolicyInput (Some (ARN_String (arn p))))]"
    if "arn p \<noteq> ARN_zero"
      and "ListPolicyVersions svc (ListPolicyVersionsInput (Some (ARN_String (arn p)))) (remote w)
          = ((Some (ListPolicyVersionsOutput vs), None), st)
        \<and> None \<notin> set vs
        \<and> (\<forall>x \<in> set (answers svc (version_requests (arn p) vs) st). x = None)"
    using that(2) delete_calls_complete[of svc "arn p" "remote w" vs st]
    by (simp add: Delete_calls_exact[OF that(1)])
  show "fst (Delete svc p w) = Return None"
    if "arn p \<noteq> ARN_zero"
      and "ListPolicyVersions svc (ListPolicyVersionsInput (Some (ARN_String (arn p)))) (remote w)
          = ((Some (ListPolicyVersionsOutput vs), None), st)
        \<and> None \<notin> set vs
        \<and> (\<forall>x \<in> set (answers svc (version_requests (arn p) vs) st). x = None)"
      and "snd (fst (DeletePolicy svc (DeletePolicyInput (Some (ARN_String (arn p))))
                        (state_after svc (version_requests (arn p) vs) st))) = None"
  proof -
    obtain res err s3 where
      D: "DeletePolicy svc (DeletePolicyInput (Some (ARN_String (arn p))))
            (state_after svc (version_requests (arn p) vs) st) = ((res, err), s3)"
      by (metis prod.exhaust)
    with that(3) have "err = None" by simp
    with deletePolicy_complete_run[OF that(2)[THEN conjunct1] that(2)[THEN conjunct2, THEN conjunct1]
           that(2)[THEN conjunct2, THEN conjunct2] D]
    show ?thesis by (simp add: Delete_result[OF that(1)])
  qed
  show "fst (Delete svc p w) =
                  Return (if code = ErrCodeNoSuchEntityException then None else Some de)"
    if "arn p \<noteq> ARN_zero"
      and "ListPolicyVersions svc (ListPolicyVersionsInput (Some (ARN_String (arn p)))) (remote w)
          = ((Some (ListPolicyVersionsOutput vs), None), st)
        \<and> None \<notin> set vs
        \<and> (\<forall>x \<in> set (answers svc (version_requests (arn p) vs) st). x = None)"
      and "snd (fst (DeletePolicy svc (DeletePolicyInput (Some (ARN_String (arn p))))
                        (state_after svc (version_requests (arn p) vs) st))) = Some de
              \<and> awserr_Code de = Some code"
  proof -
    obtain res err s3 where
      D: "DeletePolicy svc (DeletePolicyInput (Some (ARN_String (arn p))))
            (state_after svc (version_requests (arn p) vs) st) = ((res, err), s3)"
      by (metis prod.exhaust)
    with that(3) have "err = Some de" by simp
    with deletePolicy_complete_run[OF that(2)[THEN conjunct1] that(2)[THEN conjunct2, THEN conjunct1]
           that(2)[THEN conjunct2, THEN conjunct2] D] that(3)
    show ?thesis by (simp add: Delete_result[OF that(1)])
  qed
qed

theorem methods_and_their_sdk_calls_witness:
  "Inr (PolicyDocument (NewExistingPolicyInstance ''n'' ''d'' ''doc'' sample_arn
          :: string PolicyInstance)) = (Inr ''doc'' :: go_error + string)
   \<and> arn (NewExistingPolicyInstance ''n'' ''d'' ''doc'' sample_arn :: string PolicyInstance)
        \<noteq> ARN_zero
   \<and> calls (snd (snd (Create Inr
        (canned_svc (Some (CreatePolicyOutput (Some sample_policy)), None)
           (Some (AwsError ''LimitExceeded'' ''versions''))
           (Some (ListPolicyVersionsOutput sample_versions), None) None None)
        (NewExistingPolicyInstance ''n'' ''d'' ''doc'' sample_arn) world0)))
      = [Call_CreatePolicy (CreatePolicyInput (Some ''doc'') (Some ''d'') (Some ''n''))]
   \<and> fst (Create Inr
        (canned_svc (Some (CreatePolicyOutput (Some sample_policy)), None)
           (Some (AwsError ''LimitExceeded'' ''versions''))
           (Some (ListPolicyVersionsOutput sample_versions), None) None None)
        (NewExistingPolicyInstance ''n'' ''d'' ''doc'' sample_arn) world0) = Return None
   \<and> calls (snd (snd (Update Inr
        (canned_svc (Some (CreatePolicyOutput (Some sample_policy)), None)
           (Some (AwsError ''LimitExceeded'' ''versions''))
           (Some (ListPolicyVersionsOutput sample_versions), None) None None)
        (NewExistingPolicyInstance ''n'' ''d'' ''doc'' sample_arn) world0)))
      = [Call_CreatePolicyVersion
           (CreatePolicyVersionInput (Some ''doc'') (Some ''arn:aws:iam::42:policy/p'') (Some True))]
   \<and> fst (Update Inr
        (canned_svc (Some (CreatePolicyOutput (Some sample_policy)), None)
           (Some (AwsError ''LimitExceeded'' ''versions''))
           (Some (ListPolicyVersionsOutput sample_versions), None) None None)
        (NewExistingPolicyInstance ''n'' ''d'' ''doc'' sample_arn) world0)
      = Return (Some (AwsError ''LimitExceeded'' ''versions''))
   \<and> calls (snd (snd (Delete
        (canned_svc (Some (CreatePolicyOutput (Some sample_policy)), None)
           (Some (AwsError ''LimitExceeded'' ''versions''))
           (Some (ListPolicyVersionsOutput sample_versions), None) None None)
        (NewExistingPolicyInstance ''n'' ''d'' ''doc'' sample_arn :: string PolicyInstance)
        world0)))
      = [Call_ListPolicyVersions (ListPolicyVersionsInput (Some ''arn:aws:iam::42:policy/p'')),
         Call_DeletePolicyVersion
           (DeletePolicyVersionInput (Some ''arn:aws:iam::42:policy/p'') (Some ''v2'')),
         Call_DeletePolicyVersion
           (DeletePolicyVersionInput (Some ''arn:aws:iam::42:policy/p'') (Some ''v3'')),
         Call_DeletePolicy (DeletePolicyInput (Some ''arn:aws:iam::42:policy/p''))]
   \<and> fst (Delete
        (canned_svc (Some (CreatePolicyOutput (Some sample_policy)), None)
           (Some (AwsError ''LimitExceeded'' ''versions''))
           (Some (ListPolicyVersionsOutput sample_versions), None) None None)
        (NewExistingPolicyInstance ''n'' ''d'' ''doc'' sample_arn :: string PolicyInstance)
        world0) = Return None
   \<and> fst (Delete
        (canned_svc (None, None) None (Some (ListPolicyVersionsOutput sample_versions), None)
           None (Some (AwsError ''DeleteConflict'' ''attached'')))
        (NewExistingPolicyInstance ''n'' ''d'' ''doc'' sample_arn :: string PolicyInstance)
        world0) = Return (Some (AwsError ''DeleteConflict'' ''attached''))
   \<and> fst (Delete
        (canned_svc (None, None) None (Some (ListPolicyVersionsOutput sample_versions), None)
           (Some (AwsError ''ServiceFailure'' ''try later'')) None)
        (NewExistingPolicyInstance ''n'' ''d'' ''doc'' sample_arn :: string PolicyInstance)
        world0) = Return (Some (AwsError ''ServiceFailure'' ''try later''))
   \<and> fst (Delete
        (canned_svc (None, None) None (None, Some (AwsError ''AccessDenied'' ''no''))
           None None)
        (NewExistingPolicyInstance ''n'' ''d'' ''doc'' sample_arn :: string PolicyInstance)
        world0) = Return (Some (AwsError ''AccessDenied'' ''no''))
   \<and> arn (NewPolicyInstance ''n'' ''d'' ''doc'' :: string PolicyInstance) = ARN_zero
   \<and> snd (snd (Delete
        (canned_svc (Some (CreatePolicyOutput (Some sample_policy)), None)
           (Some (AwsError ''LimitExceeded'' ''versions''))
           (Some (ListPolicyVersionsOutput sample_versions), None) None None)
        (NewPolicyInstance ''n'' ''d'' ''doc'' :: string PolicyInstance) world0)) = world0"
proof -
  let ?svc = "canned_svc (Some (CreatePolicyOutput (Some sample_policy)), None)
           (Some (AwsError ''LimitExceeded'' ''versions''))
           (Some (ListPolicyVersionsOutput sample_versions), None) None None"
  let ?svcD = "canned_svc (None, None) None (Some (ListPolicyVersionsOutput sample_versions), None)
           None (Some (AwsError ''DeleteConflict'' ''attached''))"
  let ?svcV = "canned_svc (None, None) None (Some (ListPolicyVersionsOutput sample_versions), None)
           (Some (AwsError ''ServiceFailure'' ''try later'')) None"
  let ?svcL = "canned_svc (None, None) None (None, Some (AwsError ''AccessDenied'' ''no''))
           None None"
  let ?p0 = "NewPolicyInstance ''n'' ''d'' ''doc'' :: string PolicyInstance"
  let ?p1 = "NewExistingPolicyInstance ''n'' ''d'' ''doc'' sample_arn :: string PolicyInstance"
  let ?li = "ListPolicyVersionsInput (Some (ARN_String (arn ?p1)))"
  have z: "arn ?p0 = ARN_zero" by (simp add: NewPolicyInstance_def)
  have c: "arn ?p1 \<noteq> ARN_zero" by (simp add: NewExistingPolicyInstance_def sample_nonzero)
  have a: "arn ?p1 = sample_arn" by (simp add: NewExistingPolicyInstance_def)
  have m: "Inr (PolicyDocument ?p1) = (Inr ''doc'' :: go_error + string)"
    by (simp add: NewExistingPolicyInstance_def)
  have P: "Parse (StringValue (Arn sample_policy)) = Inr sample_arn"
    by (simp add: sample_policy_def StringValue_def Parse_sample)
  have L: "ListPolicyVersions (canned_svc cp cv (Some (ListPolicyVersionsOutput sample_versions), None) dv dp)
             ?li (remote world0) = ((Some (ListPolicyVersionsOutput sample_versions), None), 1)"
    for cp cv dv dp
    by (simp add: canned_raw world0_def)
  have A: "\<forall>x \<in> set (answers (canned_svc cp cv ls None dp)
                          (version_requests (arn ?p1) sample_versions) 1). x = None"
    for cp cv ls dp
    unfolding canned_answers by simp
  have R: "version_requests (arn ?p1) (before_nil sample_versions) =
     [DeletePolicyVersionInput (Some ''arn:aws:iam::42:policy/p'') (Some ''v2''),
      DeletePolicyVersionInput (Some ''arn:aws:iam::42:policy/p'') (Some ''v3'')]"
    by (simp add: a before_nil_no_nil[OF sample_versions_no_nil] sample_requests)
  note t1 = methods_and_their_sdk_calls
      [where marshal = Inr and p = ?p1 and b = "''doc''" and svc = ?svc and w = world0
         and vs = sample_versions and st = 1]
  note tD = methods_and_their_sdk_calls
      [where marshal = Inr and p = ?p1 and svc = ?svcD and w = world0
         and vs = sample_versions and st = 1
         and de = "AwsError ''DeleteConflict'' ''attached''" and code = "''DeleteConflict''"]
  note tV = methods_and_their_sdk_calls
      [where marshal = Inr and p = ?p1 and svc = ?svcV and w = world0
         and vs = sample_versions and st = 1]
  note tL = methods_and_their_sdk_calls
      [where marshal = Inr and p = ?p1 and svc = ?svcL and w = world0
         and le = "AwsError ''AccessDenied'' ''no''"]
  note t0 = methods_and_their_sdk_calls
      [where marshal = Inr and p = ?p0 and svc = ?svc and w = world0]
  note del1 = t1[THEN conjunct2, THEN conjunct2, THEN conjunct1, THEN mp, OF c]
  note delD = tD[THEN conjunct2, THEN conjunct2, THEN conjunct1, THEN mp, OF c]
  note delV = tV[THEN conjunct2, THEN conjunct2, THEN conjunct1, THEN mp, OF c]
  note delL = tL[THEN conjunct2, THEN conjunct2, THEN conjunct1, THEN mp, OF c]
  from t1[THEN conjunct1, THEN mp, OF m]
  have 1: "calls (snd (snd (Create Inr ?svc ?p1 world0)))
      = [Call_CreatePolicy (CreatePolicyInput (Some ''doc'') (Some ''d'') (Some ''n''))]"
    and 2: "fst (Create Inr ?svc ?p1 world0) = Return None"
    by (simp_all add: NewExistingPolicyInstance_def world0_def canned_svc_def P)
  from t1[THEN conjunct2, THEN conjunct1, THEN mp, OF conjI[OF c m]]
  have 3: "calls (snd (snd (Update Inr ?svc ?p1 world0)))
      = [Call_CreatePolicyVersion
           (CreatePolicyVersionInput (Some ''doc'') (Some ''arn:aws:iam::42:policy/p'') (Some True))]"
    and 4: "fst (Update Inr ?svc ?p1 world0) = Return (Some (AwsError ''LimitExceeded'' ''versions''))"
    by (simp_all add: NewExistingPolicyInstance_def world0_def canned_svc_def sample_str)
  note full1 = del1[THEN conjunct2, THEN conjunct2, THEN conjunct2, THEN conjunct2, THEN conjunct2,
                    THEN mp, OF conjI[OF L conjI[OF sample_versions_no_nil A]]]
  from full1[THEN conjunct1]
  have 5: "calls (snd (snd (Delete ?svc ?p1 world0)))
      = [Call_ListPolicyVersions (ListPolicyVersionsInput (Some ''arn:aws:iam::42:policy/p'')),
         Call_DeletePolicyVersion
           (DeletePolicyVersionInput (Some ''arn:aws:iam::42:policy/p'') (Some ''v2'')),
         Call_DeletePolicyVersion
           (DeletePolicyVersionInput (Some ''arn:aws:iam::42:policy/p'') (Some ''v3'')),
         Call_DeletePolicy (DeletePolicyInput (Some ''arn:aws:iam::42:policy/p''))]"
    by (simp add: a world0_def sample_version_calls sample_str)
  have 6: "fst (Delete ?svc ?p1 world0) = Return None"
    by (rule full1[THEN conjunct2, THEN conjunct1, THEN mp]) (simp add: canned_raw)
  note fullD = delD[THEN conjunct2, THEN conjunct2, THEN conjunct2, THEN conjunct2, THEN conjunct2,
                    THEN mp, OF conjI[OF L conjI[OF sample_versions_no_nil A]]]
  have "fst (Delete ?svcD ?p1 world0)
          = Return (if ''DeleteConflict'' = ErrCodeNoSuchEntityException then None
                    else Some (AwsError ''DeleteConflict'' ''attached''))"
    by (rule fullD[THEN conjunct2, THEN conjunct2, THEN mp]) (simp add: canned_raw)
  then have 7: "fst (Delete ?svcD ?p1 world0) = Return (Some (AwsError ''DeleteConflict'' ''attached''))"
    by (simp add: ErrCodeNoSuchEntityException_def)
  have kV: "leading_ok (answers ?svcV (version_requests (arn ?p1) (before_nil sample_versions)) 1) = 0"
    unfolding canned_answers R by (simp add: leading_ok_simps)
  have ltV: "leading_ok (answers ?svcV (version_requests (arn ?p1) (before_nil sample_versions)) 1)
               < length (version_requests (arn ?p1) (before_nil sample_versions))"
    unfolding kV by (simp add: R)
  have "fst (Delete ?svcV ?p1 world0)
          = Return (answers ?svcV (version_requests (arn ?p1) (before_nil sample_versions)) 1
                      ! leading_ok (answers ?svcV
                                      (version_requests (arn ?p1) (before_nil sample_versions)) 1))"
    by (rule delV[THEN conjunct2, THEN conjunct2, THEN conjunct2, THEN conjunct2, THEN conjunct1,
                  THEN mp, OF conjI[OF L ltV]])
  then have 8: "fst (Delete ?svcV ?p1 world0) = Return (Some (AwsError ''ServiceFailure'' ''try later''))"
    unfolding kV unfolding canned_answers R by simp
  have 9: "fst (Delete ?svcL ?p1 world0) = Return (Some (AwsError ''AccessDenied'' ''no''))"
    by (rule delL[THEN conjunct2, THEN conjunct2, THEN conjunct2, THEN conjunct1, THEN mp])
       (simp add: canned_raw)
  from t0[THEN conjunct2, THEN conjunct2, THEN conjunct2, THEN conjunct1, THEN mp, OF z]
  have 10: "snd (snd (Delete ?svc ?p0 world0)) = world0" by simp
  from m c 1 2 3 4 5 6 7 8 9 z 10 show ?thesis by (intro conjI)
qed

end
